theory Spec2Isabelle
  imports Complex_Main
begin

section \<open>Python values\<close>

text \<open>
  The values that \<^verbatim>\<open>json.loads\<close> and \<^verbatim>\<open>yaml.safe_load\<close> produce and that descriptors
  are made of. A dict is an association list with distinct keys; only string keys are kept,
  since the code looks up string keys only (\<^verbatim>\<open>"servers"\<close>, \<^verbatim>\<open>"name"\<close>, ...) and a key
  of another type never equals one of them. A float is its rational value.
\<close>

datatype pyval =
    PNone
  | PBool bool
  | PInt int
  | PFloat rat
  | PStr string
  | PList "pyval list"
  | PDict "(string \<times> pyval) list"

text \<open>Truth value testing, as \<^verbatim>\<open>or\<close>, \<^verbatim>\<open>if x:\<close> and \<^verbatim>\<open>not x\<close> apply it.\<close>

fun truthy :: "pyval \<Rightarrow> bool" where
  "truthy PNone = False"
| "truthy (PBool b) = b"
| "truthy (PInt n) = (n \<noteq> 0)"
| "truthy (PFloat r) = (r \<noteq> 0)"
| "truthy (PStr s) = (s \<noteq> [])"
| "truthy (PList xs) = (xs \<noteq> [])"
| "truthy (PDict kvs) = (kvs \<noteq> [])"

text \<open>\<^verbatim>\<open>a or b\<close>: the left operand when it is truthy, the right operand otherwise.\<close>

definition py_or :: "pyval \<Rightarrow> pyval \<Rightarrow> pyval" where
  "py_or a b = (if truthy a then a else b)"

text \<open>\<^verbatim>\<open>d.get(key, default)\<close>; \<^verbatim>\<open>d.get(key)\<close> is the case \<open>dflt = PNone\<close>.\<close>

definition dict_get :: "(string \<times> pyval) list \<Rightarrow> string \<Rightarrow> pyval \<Rightarrow> pyval" where
  "dict_get d key dflt = (case map_of d key of None \<Rightarrow> dflt | Some v \<Rightarrow> v)"

fun type_name :: "pyval \<Rightarrow> string" where
  "type_name PNone = ''NoneType''"
| "type_name (PBool b) = ''bool''"
| "type_name (PInt n) = ''int''"
| "type_name (PFloat r) = ''float''"
| "type_name (PStr s) = ''str''"
| "type_name (PList xs) = ''list''"
| "type_name (PDict kvs) = ''dict''"

fun is_dict :: "pyval \<Rightarrow> bool" where
  "is_dict (PDict kvs) = True"
| "is_dict v = False"

section \<open>Exceptions\<close>

text \<open>
  An exception is its class name, the outcome of \<^verbatim>\<open>str(e)\<close> on it (\<open>str_exn\<close>: the text, or
  the exception that its \<^verbatim>\<open>__str__\<close> raises) and the first of the \<^verbatim>\<open>except\<close> clauses
  of \<^verbatim>\<open>_load_all_tools\<close> that its class matches: \<^verbatim>\<open>FileNotFoundError\<close>, then
  \<^verbatim>\<open>httpx.ConnectError\<close> or \<^verbatim>\<open>httpx.TimeoutException\<close>, then \<^verbatim>\<open>asyncio.TimeoutError\<close>, then
  \<^verbatim>\<open>Exception\<close>. \<open>NonExc\<close> is a class that derives from \<^verbatim>\<open>BaseException\<close> but not from
  \<^verbatim>\<open>Exception\<close> (\<^verbatim>\<open>asyncio.CancelledError\<close>, \<^verbatim>\<open>KeyboardInterrupt\<close>, \<^verbatim>\<open>SystemExit\<close>): no
  \<^verbatim>\<open>except Exception\<close> clause catches it.
\<close>

datatype exn_kind =
    FileNotFound
  | HttpxConnect
  | HttpxTimeout
  | AsyncioTimeout
  | OtherExc
  | NonExc

datatype exn = Exn (kind: exn_kind) (cls: string) (str_exn: "exn + string")

definition is_Exception :: "exn \<Rightarrow> bool" where
  "is_Exception e = (kind e \<noteq> NonExc)"

text \<open>
  \<^verbatim>\<open>{e}\<close> inside an f-string: the text \<open>f m\<close> built around the text \<open>m\<close> of \<^verbatim>\<open>str(e)\<close>, or the
  exception that \<^verbatim>\<open>str(e)\<close> raises, which then leaves the statement that holds the f-string.
\<close>

definition with_str :: "exn \<Rightarrow> (string \<Rightarrow> string) \<Rightarrow> exn + string" where
  "with_str e f = (case str_exn e of Inl e' \<Rightarrow> Inl e' | Inr m \<Rightarrow> Inr (f m))"

text \<open>\<^verbatim>\<open>str(e)\<close> returns.\<close>

definition formats :: "exn \<Rightarrow> bool" where
  "formats e = (case str_exn e of Inl e' \<Rightarrow> False | Inr m \<Rightarrow> True)"

definition FileNotFoundError :: "string \<Rightarrow> exn" where
  "FileNotFoundError m = Exn FileNotFound ''FileNotFoundError'' (Inr m)"

definition RuntimeError :: "string \<Rightarrow> exn" where
  "RuntimeError m = Exn OtherExc ''RuntimeError'' (Inr m)"

definition ValueError :: "string \<Rightarrow> exn" where
  "ValueError m = Exn OtherExc ''ValueError'' (Inr m)"

definition TypeError :: "string \<Rightarrow> exn" where
  "TypeError m = Exn OtherExc ''TypeError'' (Inr m)"

definition NotImplementedError :: exn where
  "NotImplementedError = Exn OtherExc ''NotImplementedError'' (Inr [])"

text \<open>What \<^verbatim>\<open>v.get\<close> raises when \<open>v\<close> is not a dict.\<close>

definition AttributeError_get :: "pyval \<Rightarrow> exn" where
  "AttributeError_get v =
     Exn OtherExc ''AttributeError''
       (Inr ([CHR 0x27] @ type_name v @ [CHR 0x27] @ '' object has no attribute '' @
             [CHR 0x27] @ ''get'' @ [CHR 0x27]))"

section \<open>Configuration resolution\<close>

text \<open>
  What the configuration code reads from its surroundings: the process environment, the
  file system through \<^verbatim>\<open>pathlib\<close>, and the two parsers. A path is its text; \<open>path_suffix\<close>
  is \<^verbatim>\<open>Path.suffix\<close>; \<open>path_exists\<close> is what \<^verbatim>\<open>Path.exists()\<close> returns. \<open>import_yaml\<close> is
  \<open>None\<close> when \<^verbatim>\<open>import yaml\<close> succeeds and the
  exception it raises otherwise. \<open>repo_root\<close> is the value of \<^verbatim>\<open>_repo_root()\<close>.
  Every read is recorded as an event, in the order the code performs it.
\<close>

record fsys =
  getenv :: "string \<Rightarrow> string option"
  repo_root :: string
  path_exists :: "string \<Rightarrow> bool"
  path_suffix :: "string \<Rightarrow> string"
  read_text :: "string \<Rightarrow> exn + string"
  import_yaml :: "exn option"
  yaml_safe_load :: "string \<Rightarrow> exn + pyval"
  json_loads :: "string \<Rightarrow> exn + pyval"

datatype fs_event =
    Getenv string
  | PathExists string
  | ReadText string
  | ImportYaml
  | YamlSafeLoad string
  | JsonLoads string

text \<open>\<^verbatim>\<open>str.lower\<close> on the ASCII letters.\<close>

definition lower_char :: "char \<Rightarrow> char" where
  "lower_char c =
     (let n = (of_char c :: nat) in if 65 \<le> n \<and> n \<le> 90 then char_of (n + 32) else c)"

definition lower :: "string \<Rightarrow> string" where
  "lower s = map lower_char s"

text \<open>\<^verbatim>\<open>a / b\<close> on paths, for a relative \<open>b\<close>.\<close>

definition joinpath :: "string \<Rightarrow> string \<Rightarrow> string" where
  "joinpath a b = a @ ''/'' @ b"

text \<open>
  Lines 42 to 53 of \<^verbatim>\<open>_load_servers_from_file\<close>: the descriptor list inside the parsed
  data.
\<close>

definition select_servers :: "string \<Rightarrow> pyval \<Rightarrow> exn + pyval list" where
  "select_servers path data =
     (case data of
        PDict d \<Rightarrow>
          (let servers =
                 py_or (py_or (dict_get d ''servers'' PNone) (dict_get d ''mcpServers'' PNone))
                       (dict_get d ''mcp_servers'' PNone)
           in case servers of
                PNone \<Rightarrow>
                  Inl (ValueError (''No '' @ [CHR 0x27] @ ''servers'' @ [CHR 0x27] @
                                   '' key found in '' @ path))
              | PList xs \<Rightarrow> Inr xs
              | _ \<Rightarrow>
                  Inl (TypeError ([CHR 0x27] @ ''servers'' @ [CHR 0x27] @
                                  '' must be a list in '' @ path)))
      | PList xs \<Rightarrow> Inr xs
      | _ \<Rightarrow>
          Inl (TypeError (''Unsupported config format in '' @ path @
                          '': expected dict or list'')))"

text \<open>Lines 26 to 36: reading and parsing the file, by its suffix.\<close>

definition parse_config :: "fsys \<Rightarrow> string \<Rightarrow> (exn + pyval) \<times> fs_event list" where
  "parse_config env path =
     (if lower (path_suffix env path) \<in> set [''.yaml'', ''.yml''] then
        (case import_yaml env of
           Some e \<Rightarrow>
             (if is_Exception e then
                (case with_str e
                        (\<lambda>m. ''YAML config requested but PyYAML is not installed. '' @
                             ''Install pyyaml or use JSON. ('' @ m @ '')'') of
                   Inl e' \<Rightarrow> (Inl e', [ImportYaml])
                 | Inr text \<Rightarrow> (Inl (RuntimeError text), [ImportYaml]))
              else (Inl e, [ImportYaml]))
         | None \<Rightarrow>
             (case read_text env path of
                Inl e \<Rightarrow> (Inl e, [ImportYaml, ReadText path])
              | Inr txt \<Rightarrow> (yaml_safe_load env txt, [ImportYaml, ReadText path, YamlSafeLoad txt])))
      else
        (case read_text env path of
           Inl e \<Rightarrow> (Inl e, [ReadText path])
         | Inr txt \<Rightarrow> (json_loads env txt, [ReadText path, JsonLoads txt])))"

definition load_servers_from_file :: "fsys \<Rightarrow> string \<Rightarrow> (exn + pyval list) \<times> fs_event list" where
  "load_servers_from_file env path =
     (if \<not> path_exists env path then
        (Inl (FileNotFoundError (''MCP servers config not found: '' @ path)), [PathExists path])
      else
        (case parse_config env path of
           (Inl e, evs) \<Rightarrow> (Inl e, PathExists path # evs)
         | (Inr data, evs) \<Rightarrow> (select_servers path data, PathExists path # evs)))"

definition candidates :: "string \<Rightarrow> string list" where
  "candidates rt =
     [joinpath rt ''mcp_servers.json'',
      joinpath rt ''mcp_servers.yaml'',
      joinpath rt ''mcp_servers.yml'',
      joinpath (joinpath rt ''configs'') ''mcp_servers.json'',
      joinpath (joinpath rt ''configs'') ''mcp_servers.yaml'',
      joinpath (joinpath rt ''configs'') ''mcp_servers.yml'',
      joinpath (joinpath rt ''config'') ''mcp_servers.json'',
      joinpath (joinpath rt ''config'') ''mcp_servers.yaml'',
      joinpath (joinpath rt ''config'') ''mcp_servers.yml'']"

text \<open>The loop of lines 75 to 79.\<close>

fun first_existing :: "fsys \<Rightarrow> string list \<Rightarrow> string option \<times> fs_event list" where
  "first_existing env [] = (None, [])"
| "first_existing env (p # ps) =
     (if path_exists env p then (Some p, [PathExists p])
      else (case first_existing env ps of (r, evs) \<Rightarrow> (r, PathExists p # evs)))"

text \<open>Truth value of what \<^verbatim>\<open>os.getenv\<close> returns: a non-empty string.\<close>

fun env_truthy :: "string option \<Rightarrow> bool" where
  "env_truthy None = False"
| "env_truthy (Some s) = (s \<noteq> [])"

definition default_servers_config_path :: "fsys \<Rightarrow> string option \<times> fs_event list" where
  "default_servers_config_path env =
     (let a = getenv env ''MCP_SERVERS_PATH'';
          env_path = (if env_truthy a then a else getenv env ''MCP_CONFIG_PATH'');
          evs = (if env_truthy a then [Getenv ''MCP_SERVERS_PATH'']
                 else [Getenv ''MCP_SERVERS_PATH'', Getenv ''MCP_CONFIG_PATH''])
      in if env_truthy env_path then (env_path, evs)
         else (case first_existing env (candidates (repo_root env)) of
                 (r, evs') \<Rightarrow> (r, evs @ evs')))"

section \<open>The store of list objects\<close>

text \<open>
  A Python list is an object with an identity. The store maps the address of each list
  object this module creates to its contents; \<open>next_free\<close> is the first address not yet in
  use.
\<close>

record 'h heap =
  cells :: "nat \<Rightarrow> 'h list"
  next_free :: nat

definition alloc :: "'h heap \<Rightarrow> 'h list \<Rightarrow> nat \<times> 'h heap" where
  "alloc h xs =
     (next_free h, h\<lparr>cells := (cells h)(next_free h := xs), next_free := Suc (next_free h)\<rparr>)"

text \<open>Any in-place change of the list object at address \<open>a\<close>: its contents become \<open>xs\<close>.\<close>

definition mutate :: "'h heap \<Rightarrow> nat \<Rightarrow> 'h list \<Rightarrow> 'h heap" where
  "mutate h a xs = h\<lparr>cells := (cells h)(a := xs)\<rparr>"

section \<open>MCPConnector\<close>

text \<open>
  The fields of the class. \<open>tools_ref\<close> (\<^verbatim>\<open>_tools\<close>) is the address of the cached list object,
  \<open>loaded\<close> is \<^verbatim>\<open>_loaded\<close>.
\<close>

record connector =
  timeout_s :: pyval
  tools_ref :: nat
  loaded :: bool
  servers :: "pyval list"

text \<open>
  The collaborators of the load: \<open>build_toolset\<close> is the method \<^verbatim>\<open>_build_toolset\<close>, which
  the class leaves to be filled in; \<open>wait_for_get_tools ts t\<close> is the outcome of
  \<^verbatim>\<open>await asyncio.wait_for(ts.get_tools(), timeout=t)\<close>, the list of handles or the exception
  raised (\<open>AsyncioTimeout\<close> when the wait runs out); \<open>py_str\<close> is \<^verbatim>\<open>str\<close> on values that are
  not strings. A call that returns yields a list of handles, as the toolkit promises, so
  \<^verbatim>\<open>loaded_tools.extend(tools)\<close> appends all of them. The outcome of a call depends on
  its arguments only. The \<^verbatim>\<open>logger\<close> lines inside the loop are left out; the warning
  after the loop, which carries the list \<^verbatim>\<open>failures\<close>, is an event.
\<close>

record ('ts, 'h) toolkit =
  build_toolset :: "pyval \<Rightarrow> exn + 'ts"
  wait_for_get_tools :: "'ts \<Rightarrow> pyval \<Rightarrow> exn + 'h list"
  py_str :: "pyval \<Rightarrow> string"

text \<open>The body of \<^verbatim>\<open>_build_toolset\<close> as the file has it.\<close>

definition build_toolset_stub :: "pyval \<Rightarrow> exn + 'ts" where
  "build_toolset_stub server_cfg = Inl NotImplementedError"

text \<open>
  What a load does to its surroundings, in order: a call of the factory, a call of the
  list-tools capability, and the consolidated warning of line 145 with the skip reasons.
\<close>

datatype 'ts event =
    BuildToolset pyval
  | GetTools 'ts
  | WarnSkipped "string list"

text \<open>A value inside an f-string.\<close>

definition fmt :: "('ts, 'h) toolkit \<Rightarrow> pyval \<Rightarrow> string" where
  "fmt k v = (case v of PStr s \<Rightarrow> s | _ \<Rightarrow> py_str k v)"

text \<open>Line 117: \<^verbatim>\<open>server_cfg.get("name", "<unnamed>")\<close>, outside the \<^verbatim>\<open>try\<close>.\<close>

definition get_name :: "pyval \<Rightarrow> exn + pyval" where
  "get_name server_cfg =
     (case server_cfg of
        PDict d \<Rightarrow> Inr (dict_get d ''name'' (PStr ''<unnamed>''))
      | _ \<Rightarrow> Inl (AttributeError_get server_cfg))"

text \<open>Lines 119 to 121: the body of the \<^verbatim>\<open>try\<close>, up to the handles it obtains.\<close>

definition try_body :: "('ts, 'h) toolkit \<Rightarrow> pyval \<Rightarrow> pyval \<Rightarrow> (exn + 'h list) \<times> 'ts event list" where
  "try_body k t server_cfg =
     (case build_toolset k server_cfg of
        Inl e \<Rightarrow> (Inl e, [BuildToolset server_cfg])
      | Inr toolset \<Rightarrow> (wait_for_get_tools k toolset t, [BuildToolset server_cfg, GetTools toolset]))"

text \<open>
  Lines 125 to 139: what the clause that catches the exception does. \<open>None\<close> when no
  clause catches it; \<open>Some (Inr reason)\<close> when the clause appends \<open>reason\<close> to
  \<^verbatim>\<open>failures\<close>; \<open>Some (Inl e')\<close> when building the reason raises \<open>e'\<close>, which no later
  clause of the same \<^verbatim>\<open>try\<close> catches. The timeout clause does not format the exception.
\<close>

definition skip_reason ::
  "('ts, 'h) toolkit \<Rightarrow> pyval \<Rightarrow> pyval \<Rightarrow> exn \<Rightarrow> (exn + string) option" where
  "skip_reason k t name e =
     (case kind e of
        FileNotFound \<Rightarrow>
          Some (with_str e (\<lambda>m. fmt k name @ '': command not found ('' @ m @ '')''))
      | HttpxConnect \<Rightarrow>
          Some (with_str e (\<lambda>m. fmt k name @ '': cannot connect ('' @ m @ '')''))
      | HttpxTimeout \<Rightarrow>
          Some (with_str e (\<lambda>m. fmt k name @ '': cannot connect ('' @ m @ '')''))
      | AsyncioTimeout \<Rightarrow>
          Some (Inr (fmt k name @ '': get_tools() timed out after '' @ fmt k t @ ''s''))
      | OtherExc \<Rightarrow>
          Some (with_str e
                  (\<lambda>m. fmt k name @ '': unexpected error ('' @ cls e @ '': '' @ m @ '')''))
      | NonExc \<Rightarrow> None)"

text \<open>
  The loop of lines 116 to 139 over the remaining descriptors, with the two local lists
  \<^verbatim>\<open>loaded_tools\<close> and \<^verbatim>\<open>failures\<close>. \<open>Inl\<close> is an exception that leaves the loop.
\<close>

fun load_loop ::
  "('ts, 'h) toolkit \<Rightarrow> pyval \<Rightarrow> pyval list \<Rightarrow> 'h list \<Rightarrow> string list \<Rightarrow>
   (exn + 'h list \<times> string list) \<times> 'ts event list" where
  "load_loop k t [] loaded_tools failures = (Inr (loaded_tools, failures), [])"
| "load_loop k t (server_cfg # rest) loaded_tools failures =
     (case get_name server_cfg of
        Inl e \<Rightarrow> (Inl e, [])
      | Inr name \<Rightarrow>
          (case try_body k t server_cfg of
             (Inr tools, evs) \<Rightarrow>
               (case load_loop k t rest (loaded_tools @ tools) failures of
                  (r, evs') \<Rightarrow> (r, evs @ evs'))
           | (Inl e, evs) \<Rightarrow>
               (case skip_reason k t name e of
                  None \<Rightarrow> (Inl e, evs)
                | Some (Inl e') \<Rightarrow> (Inl e', evs)
                | Some (Inr reason) \<Rightarrow>
                    (case load_loop k t rest loaded_tools (failures @ [reason]) of
                       (r, evs') \<Rightarrow> (r, evs @ evs')))))"

text \<open>
  \<^verbatim>\<open>__init__\<close>. The argument \<open>servers_arg\<close> is \<open>None\<close> when the caller passes no list.
  \<^verbatim>\<open>self._tools = []\<close> creates the first list object.
\<close>

definition init ::
  "fsys \<Rightarrow> pyval list option \<Rightarrow> pyval \<Rightarrow> 'h heap \<Rightarrow> (exn + connector) \<times> 'h heap \<times> fs_event list" where
  "init env servers_arg timeout h =
     (case alloc h [] of
        (a, h') \<Rightarrow>
          (let self = \<lparr>timeout_s = timeout, tools_ref = a, loaded = False, servers = []\<rparr> in
           case servers_arg of
             Some xs \<Rightarrow> (Inr (self\<lparr>servers := xs\<rparr>), h', [])
           | None \<Rightarrow>
               (case default_servers_config_path env of
                  (None, evs) \<Rightarrow> (Inr (self\<lparr>servers := []\<rparr>), h', evs)
                | (Some cfg_path, evs) \<Rightarrow>
                    (case load_servers_from_file env cfg_path of
                       (Inr xs, evs') \<Rightarrow> (Inr (self\<lparr>servers := xs\<rparr>), h', evs @ evs')
                     | (Inl e, evs') \<Rightarrow>
                         (if is_Exception e then (Inr (self\<lparr>servers := []\<rparr>), h', evs @ evs')
                          else (Inl e, h', evs @ evs'))))))"

text \<open>The default of the parameter \<^verbatim>\<open>timeout_s\<close>.\<close>

definition default_timeout_s :: pyval where
  "default_timeout_s = PFloat 10"

text \<open>
  \<^verbatim>\<open>_load_all_tools\<close>. The local list \<^verbatim>\<open>loaded_tools\<close> has no other reference before line
  141, so it enters the store when it is assigned to \<^verbatim>\<open>_tools\<close>.
\<close>

definition load_all_tools ::
  "('ts, 'h) toolkit \<Rightarrow> connector \<Rightarrow> 'h heap \<Rightarrow>
   (exn + unit) \<times> connector \<times> 'h heap \<times> 'ts event list" where
  "load_all_tools k self h =
     (if loaded self then (Inr (), self, h, [])
      else
        (case load_loop k (timeout_s self) (servers self) [] [] of
           (Inl e, evs) \<Rightarrow> (Inl e, self, h, evs)
         | (Inr (loaded_tools, failures), evs) \<Rightarrow>
             (case alloc h loaded_tools of
                (a, h') \<Rightarrow>
                  (Inr (), self\<lparr>tools_ref := a, loaded := True\<rparr>, h',
                   evs @ (if failures \<noteq> [] then [WarnSkipped failures] else [])))))"

text \<open>\<^verbatim>\<open>get_tools\<close>: the address of the new list object that \<^verbatim>\<open>list(self._tools)\<close> creates.\<close>

definition get_tools ::
  "('ts, 'h) toolkit \<Rightarrow> connector \<Rightarrow> 'h heap \<Rightarrow>
   (exn + nat) \<times> connector \<times> 'h heap \<times> 'ts event list" where
  "get_tools k self h =
     (case load_all_tools k self h of
        (Inl e, self', h', evs) \<Rightarrow> (Inl e, self', h', evs)
      | (Inr u, self', h', evs) \<Rightarrow>
          (case alloc h' (cells h' (tools_ref self')) of
             (r, h'') \<Rightarrow> (Inr r, self', h'', evs)))"

section \<open>Observations\<close>

text \<open>
  What a caller or a test sees of a call: the contents of the list that was returned, the
  events of the call, the skip reasons of the warnings among them, and how often the two
  collaborators were called.
\<close>

definition returned_list ::
  "(exn + nat) \<times> connector \<times> 'h heap \<times> 'ts event list \<Rightarrow> exn + 'h list" where
  "returned_list r = (case r of (Inl e, c, h, evs) \<Rightarrow> Inl e | (Inr a, c, h, evs) \<Rightarrow> Inr (cells h a))"

definition events_of :: "'r \<times> connector \<times> 'h heap \<times> 'ts event list \<Rightarrow> 'ts event list" where
  "events_of r = snd (snd (snd r))"

definition conn_of :: "'r \<times> connector \<times> 'h heap \<times> 'ts event list \<Rightarrow> connector" where
  "conn_of r = fst (snd r)"

definition heap_of :: "'r \<times> connector \<times> 'h heap \<times> 'ts event list \<Rightarrow> 'h heap" where
  "heap_of r = fst (snd (snd r))"

text \<open>The events of two calls of \<open>get_tools\<close> in a row on the same connector.\<close>

definition twice :: "('ts, 'h) toolkit \<Rightarrow> connector \<Rightarrow> 'h heap \<Rightarrow> 'ts event list" where
  "twice k c h =
     events_of (get_tools k c h) @
     events_of (get_tools k (conn_of (get_tools k c h)) (heap_of (get_tools k c h)))"

fun skip_records :: "'ts event list \<Rightarrow> string list" where
  "skip_records [] = []"
| "skip_records (WarnSkipped fl # evs) = fl @ skip_records evs"
| "skip_records (ev # evs) = skip_records evs"

fun factory_calls :: "'ts event list \<Rightarrow> nat" where
  "factory_calls [] = 0"
| "factory_calls (BuildToolset cfg # evs) = Suc (factory_calls evs)"
| "factory_calls (ev # evs) = factory_calls evs"

fun list_tools_calls :: "'ts event list \<Rightarrow> nat" where
  "list_tools_calls [] = 0"
| "list_tools_calls (GetTools ts # evs) = Suc (list_tools_calls evs)"
| "list_tools_calls (ev # evs) = list_tools_calls evs"

definition constructed :: "('ts, 'h) toolkit \<Rightarrow> pyval \<Rightarrow> bool" where
  "constructed k cfg = (case build_toolset k cfg of Inl e \<Rightarrow> False | Inr ts \<Rightarrow> True)"

definition handles_of :: "('ts, 'h) toolkit \<Rightarrow> pyval \<Rightarrow> pyval \<Rightarrow> 'h list" where
  "handles_of k t cfg = (case fst (try_body k t cfg) of Inl e \<Rightarrow> [] | Inr hs \<Rightarrow> hs)"

definition skips_of :: "('ts, 'h) toolkit \<Rightarrow> pyval \<Rightarrow> pyval \<Rightarrow> string list" where
  "skips_of k t cfg =
     (case fst (try_body k t cfg) of
        Inr hs \<Rightarrow> []
      | Inl e \<Rightarrow>
          (case get_name cfg of
             Inl e' \<Rightarrow> []
           | Inr name \<Rightarrow>
               (case skip_reason k t name e of
                  None \<Rightarrow> []
                | Some (Inl e') \<Rightarrow> []
                | Some (Inr reason) \<Rightarrow> [reason])))"

text \<open>
  An exception that the clauses of lines 125 to 139 turn into a skip: an instance of
  \<^verbatim>\<open>Exception\<close> that is the timeout of the bounded wait or whose \<^verbatim>\<open>str(e)\<close> returns.
\<close>

definition skippable :: "exn \<Rightarrow> bool" where
  "skippable e = (is_Exception e \<and> (kind e = AsyncioTimeout \<or> formats e))"

fun is_list :: "pyval \<Rightarrow> bool" where
  "is_list (PList xs) = True"
| "is_list v = False"

text \<open>The value that line 43 assigns to \<^verbatim>\<open>servers\<close>, for the parsed mapping \<open>d\<close>.\<close>

definition chosen :: "(string \<times> pyval) list \<Rightarrow> pyval" where
  "chosen d =
     py_or (py_or (dict_get d ''servers'' PNone) (dict_get d ''mcpServers'' PNone))
           (dict_get d ''mcp_servers'' PNone)"

text \<open>The connector that \<open>init\<close> returns when it has no descriptor.\<close>

definition empty_connector :: "pyval \<Rightarrow> 'h heap \<Rightarrow> connector" where
  "empty_connector t h = \<lparr>timeout_s = t, tools_ref = next_free h, loaded = False, servers = []\<rparr>"

text \<open>
  The file loader raises \<open>e\<close> on the path \<open>p\<close>, and construction with no list passed
  returns, with no descriptor and an empty cache.
\<close>

definition caught_as :: "fsys \<Rightarrow> string \<Rightarrow> pyval \<Rightarrow> 'h heap \<Rightarrow> exn \<Rightarrow> bool" where
  "caught_as env p t h e =
     (fst (load_servers_from_file env p) = Inl e \<and>
      fst (init env None t h) = Inr (empty_connector t h) \<and>
      cells (fst (snd (init env None t h))) (next_free h) = [])"

definition valid :: "connector \<Rightarrow> 'h heap \<Rightarrow> bool" where
  "valid c h = (tools_ref c < next_free h)"

section \<open>Concrete inputs\<close>

text \<open>
  A toolkit whose factory returns the \<^verbatim>\<open>url\<close> of the descriptor as its tool source, and
  whose list-tools outcome depends on that source. The source \<^verbatim>\<open>boom\<close> raises an exception
  whose \<^verbatim>\<open>__str__\<close> raises \<^verbatim>\<open>RuntimeError('boom')\<close>.
\<close>

definition descr :: "string \<Rightarrow> string \<Rightarrow> pyval" where
  "descr name url = PDict [(''name'', PStr name), (''url'', PStr url)]"

definition demo_toolkit :: "(string, string) toolkit" where
  "demo_toolkit =
     \<lparr>build_toolset =
        (\<lambda>cfg. case cfg of
                 PDict d \<Rightarrow>
                   (case map_of d ''url'' of
                      Some (PStr u) \<Rightarrow> Inr u
                    | _ \<Rightarrow> Inl (Exn OtherExc ''KeyError'' (Inr ''url'')))
               | _ \<Rightarrow> Inl (TypeError ''descriptor'')),
      wait_for_get_tools =
        (\<lambda>ts t. if ts = ''alpha'' then Inr [''a1'', ''a2'']
                else if ts = ''beta'' then Inr [''b1'']
                else if ts = ''nocmd'' then Inl (FileNotFoundError ''npx'')
                else if ts = ''down'' then Inl (Exn HttpxConnect ''ConnectError'' (Inr ''refused''))
                else if ts = ''slow'' then Inl (Exn AsyncioTimeout ''TimeoutError'' (Inr []))
                else if ts = ''cancel'' then Inl (Exn NonExc ''CancelledError'' (Inr []))
                else if ts = ''boom'' then
                  Inl (Exn OtherExc ''Unprintable'' (Inl (RuntimeError ''boom'')))
                else Inl (ValueError ''bad'')),
      py_str = (\<lambda>v. ''10.0'')\<rparr>"

definition hs_demo :: "pyval \<Rightarrow> string list" where
  "hs_demo cfg =
     (if cfg = descr ''A'' ''alpha'' then [''a1'', ''a2'']
      else if cfg = descr ''B'' ''beta'' then [''b1'']
      else [])"

text \<open>The store and the connector as \<open>init\<close> leaves them on an empty store.\<close>

definition heap1 :: "string heap" where
  "heap1 = \<lparr>cells = (\<lambda>a. []), next_free = 1\<rparr>"

definition conn_demo :: "pyval list \<Rightarrow> connector" where
  "conn_demo xs = \<lparr>timeout_s = default_timeout_s, tools_ref = 0, loaded = False, servers = xs\<rparr>"

text \<open>The demo toolkit with the factory as the file has it.\<close>

definition stub_toolkit :: "(string, string) toolkit" where
  "stub_toolkit = demo_toolkit\<lparr>build_toolset := build_toolset_stub\<rparr>"

definition conn_mixed :: connector where
  "conn_mixed =
     conn_demo [descr ''A'' ''alpha'', descr ''N'' ''nocmd'', descr ''D'' ''down'',
                descr ''S'' ''slow'', descr ''X'' ''other'', descr ''B'' ''beta'']"

definition conn_bad :: connector where
  "conn_bad = conn_demo [descr ''A'' ''alpha'', PStr ''oops'', descr ''B'' ''beta'']"

definition conn_cancel :: connector where
  "conn_cancel = conn_demo [descr ''A'' ''alpha'', descr ''C'' ''cancel'', descr ''B'' ''beta'']"

definition conn_boom :: connector where
  "conn_boom = conn_demo [descr ''A'' ''alpha'', descr ''K'' ''boom'', descr ''B'' ''beta'']"

text \<open>
  Surroundings for the configuration code: \<open>fs_none\<close> has no environment variable and no
  file; \<open>fs_missing\<close> names a file that does not exist in \<^verbatim>\<open>MCP_SERVERS_PATH\<close>;
  \<open>fs_file sfx imp parsed\<close> names an existing file with suffix \<open>sfx\<close> there, on which
  the parser for that suffix gives \<open>parsed\<close> and \<^verbatim>\<open>import yaml\<close> gives \<open>imp\<close>.
\<close>

definition fs_none :: fsys where
  "fs_none =
     \<lparr>getenv = (\<lambda>v. None), repo_root = ''/repo'', path_exists = (\<lambda>p. False),
      path_suffix = (\<lambda>p. []), read_text = (\<lambda>p. Inl (FileNotFoundError p)),
      import_yaml = None, yaml_safe_load = (\<lambda>s. Inr PNone), json_loads = (\<lambda>s. Inr PNone)\<rparr>"

definition fs_missing :: fsys where
  "fs_missing = fs_none\<lparr>getenv := (\<lambda>v. if v = ''MCP_SERVERS_PATH'' then Some ''/etc/mcp.json'' else None)\<rparr>"

definition fs_file :: "string \<Rightarrow> exn option \<Rightarrow> exn + pyval \<Rightarrow> fsys" where
  "fs_file sfx imp parsed =
     \<lparr>getenv = (\<lambda>v. if v = ''MCP_SERVERS_PATH'' then Some (''/etc/mcp'' @ sfx) else None),
      repo_root = ''/repo'', path_exists = (\<lambda>p. True),
      path_suffix = (\<lambda>p. sfx), read_text = (\<lambda>p. Inr ''text''),
      import_yaml = imp, yaml_safe_load = (\<lambda>s. parsed), json_loads = (\<lambda>s. parsed)\<rparr>"

text \<open>What \<^verbatim>\<open>json.loads\<close> raises on an empty text; the class derives from \<^verbatim>\<open>ValueError\<close>.\<close>

definition JSONDecodeError :: exn where
  "JSONDecodeError =
     Exn OtherExc ''JSONDecodeError'' (Inr ''Expecting value: line 1 column 1 (char 0)'')"

definition heap0 :: "string heap" where
  "heap0 = \<lparr>cells = (\<lambda>a. []), next_free = 0\<rparr>"

text \<open>The parsed form of \<^verbatim>\<open>{"servers": [], "mcpServers": [{"name": "a"}]}\<close>.\<close>

definition both_keys :: pyval where
  "both_keys =
     PDict [(''servers'', PList []), (''mcpServers'', PList [PDict [(''name'', PStr ''a'')]])]"

text \<open>The parsed form of \<^verbatim>\<open>{"mcpServers": []}\<close>.\<close>

definition only_mcpServers_empty :: pyval where
  "only_mcpServers_empty = PDict [(''mcpServers'', PList [])]"

section \<open>The load loop\<close>

lemma skip_reason_Some: "skippable e \<Longrightarrow> \<exists>r. skip_reason k t n e = Some (Inr r)"
  by (cases "kind e"; cases "str_exn e")
     (simp_all add: skip_reason_def skippable_def is_Exception_def formats_def with_str_def)

lemma get_name_dict: "is_dict cfg \<Longrightarrow> \<exists>n. get_name cfg = Inr n"
  by (cases cfg) (simp_all add: get_name_def)

lemma skip_records_append: "skip_records (xs @ ys) = skip_records xs @ skip_records ys"
  by (induction xs rule: skip_records.induct) simp_all

lemma factory_calls_append: "factory_calls (xs @ ys) = factory_calls xs + factory_calls ys"
  by (induction xs rule: factory_calls.induct) simp_all

lemma list_tools_calls_append: "list_tools_calls (xs @ ys) = list_tools_calls xs + list_tools_calls ys"
  by (induction xs rule: list_tools_calls.induct) simp_all

lemma try_body_factory_calls: "factory_calls (snd (try_body k t cfg)) = 1"
  by (simp add: try_body_def split: sum.splits)

lemma try_body_list_tools_calls:
  "list_tools_calls (snd (try_body k t cfg)) = (if constructed k cfg then 1 else 0)"
  by (simp add: try_body_def constructed_def split: sum.splits)

lemma try_body_skip_records: "skip_records (snd (try_body k t cfg)) = []"
  by (simp add: try_body_def split: sum.splits)

lemma load_loop_step_ok:
  assumes "get_name cfg = Inr n" and "try_body k t cfg = (Inr hs, evs)"
  shows "load_loop k t (cfg # rest) acc fl =
           (fst (load_loop k t rest (acc @ hs) fl), evs @ snd (load_loop k t rest (acc @ hs) fl))"
  using assms by (simp split: prod.splits)

lemma load_loop_step_skip:
  assumes "get_name cfg = Inr n" and "try_body k t cfg = (Inl e, evs)"
    and "skip_reason k t n e = Some (Inr reason)"
  shows "load_loop k t (cfg # rest) acc fl =
           (fst (load_loop k t rest acc (fl @ [reason])),
            evs @ snd (load_loop k t rest acc (fl @ [reason])))"
  using assms by (simp split: prod.splits)

lemma load_loop_step_escape:
  assumes "get_name cfg = Inr n" and "try_body k t cfg = (Inl e, evs)"
    and "skip_reason k t n e = None"
  shows "load_loop k t (cfg # rest) acc fl = (Inl e, evs)"
  using assms by simp

lemma load_loop_step_handler_raises:
  assumes "get_name cfg = Inr n" and "try_body k t cfg = (Inl e, evs)"
    and "skip_reason k t n e = Some (Inl e')"
  shows "load_loop k t (cfg # rest) acc fl = (Inl e', evs)"
  using assms by simp

lemma load_loop_step_nodict:
  assumes "get_name cfg = Inl e"
  shows "load_loop k t (cfg # rest) acc fl = (Inl e, [])"
  using assms by simp

lemma load_loop_complete:
  assumes "\<forall>cfg\<in>set xs. is_dict cfg \<and> (\<forall>e. fst (try_body k t cfg) = Inl e \<longrightarrow> skippable e)"
  shows "load_loop k t xs acc fl =
           (Inr (acc @ concat (map (handles_of k t) xs), fl @ concat (map (skips_of k t) xs)),
            concat (map (\<lambda>cfg. snd (try_body k t cfg)) xs))"
  using assms
proof (induction xs arbitrary: acc fl)
  case Nil
  then show ?case by simp
next
  case (Cons cfg rest)
  from Cons.prems obtain n where n: "get_name cfg = Inr n"
    using get_name_dict by fastforce
  obtain r evs where tb: "try_body k t cfg = (r, evs)"
    by (cases "try_body k t cfg")
  have rest: "\<forall>c\<in>set rest. is_dict c \<and> (\<forall>e. fst (try_body k t c) = Inl e \<longrightarrow> skippable e)"
    using Cons.prems by simp
  show ?case
  proof (cases r)
    case (Inr hs)
    with tb n Cons.IH [OF rest, of "acc @ hs" fl] show ?thesis
      by (simp add: load_loop_step_ok handles_of_def skips_of_def del: load_loop.simps)
  next
    case (Inl e)
    with tb Cons.prems have "skippable e" by simp
    then obtain reason where reason: "skip_reason k t n e = Some (Inr reason)"
      using skip_reason_Some by blast
    with Inl tb n Cons.IH [OF rest, of acc "fl @ [reason]"] show ?thesis
      by (simp add: load_loop_step_skip handles_of_def skips_of_def del: load_loop.simps)
  qed
qed


lemma get_tools_loaded:
  assumes "loaded c"
  shows "get_tools k c h = (Inr (next_free h), c, snd (alloc h (cells h (tools_ref c))), [])"
  using assms by (simp add: get_tools_def load_all_tools_def alloc_def)

lemma get_tools_first_ok:
  assumes "\<not> loaded c"
    and "load_loop k (timeout_s c) (servers c) [] [] = (Inr (ts, fl), evs)"
  shows "get_tools k c h =
           (Inr (Suc (next_free h)), c\<lparr>tools_ref := next_free h, loaded := True\<rparr>,
            snd (alloc (snd (alloc h ts)) ts),
            evs @ (if fl \<noteq> [] then [WarnSkipped fl] else []))"
  using assms by (simp add: get_tools_def load_all_tools_def alloc_def)

lemma get_tools_first_err:
  assumes "\<not> loaded c"
    and "load_loop k (timeout_s c) (servers c) [] [] = (Inl e, evs)"
  shows "get_tools k c h = (Inl e, c, h, evs)"
  using assms by (simp add: get_tools_def load_all_tools_def)

lemma returned_list_first_ok:
  assumes "\<not> loaded c"
    and "load_loop k (timeout_s c) (servers c) [] [] = (Inr (ts, fl), evs)"
  shows "returned_list (get_tools k c h) = Inr ts"
  by (simp add: get_tools_first_ok [OF assms] returned_list_def alloc_def)

lemma events_first_ok:
  assumes "\<not> loaded c"
    and "load_loop k (timeout_s c) (servers c) [] [] = (Inr (ts, fl), evs)"
  shows "events_of (get_tools k c h) = evs @ (if fl \<noteq> [] then [WarnSkipped fl] else [])"
  by (simp add: get_tools_first_ok [OF assms] events_of_def)

lemma get_tools_err_not_loaded:
  assumes "get_tools k c h = (Inl e, c', h', evs)"
  shows "\<not> loaded c"
  using assms by (auto simp: get_tools_def load_all_tools_def alloc_def split: prod.splits sum.splits if_splits)

text \<open>
  C1: on a connector that has not loaded yet, when every descriptor is a mapping, the
  factory returns a tool source for it and the bounded list-tools call on that source
  returns the handles \<open>hs cfg\<close>, the list that \<open>get_tools\<close> returns is the concatenation of
  the \<open>hs cfg\<close> in descriptor order, each kept in its own order, and no skip is recorded.
  The order depends on the descriptor list alone: the load has no notion of completion
  time.
\<close>

theorem all_succeed_concat:
  assumes "\<not> loaded c"
    and "\<forall>cfg\<in>set (servers c). is_dict cfg \<and>
           (\<exists>ts. build_toolset k cfg = Inr ts \<and> wait_for_get_tools k ts (timeout_s c) = Inr (hs cfg))"
  shows "returned_list (get_tools k c h) = Inr (concat (map hs (servers c)))
         \<and> skip_records (events_of (get_tools k c h)) = []"
proof -
  let ?t = "timeout_s c"
  have each: "\<forall>cfg\<in>set (servers c). handles_of k ?t cfg = hs cfg \<and> skips_of k ?t cfg = []
                \<and> fst (try_body k ?t cfg) = Inr (hs cfg)"
    using assms(2) by (auto simp: handles_of_def skips_of_def try_body_def)
  then have ok: "\<forall>cfg\<in>set (servers c). is_dict cfg \<and>
                   (\<forall>e. fst (try_body k ?t cfg) = Inl e \<longrightarrow> skippable e)"
    using assms(2) by simp
  have h1: "map (handles_of k ?t) (servers c) = map hs (servers c)"
    using each by simp
  have h2: "concat (map (skips_of k ?t) (servers c)) = []"
    using each by simp
  have loop: "load_loop k ?t (servers c) [] [] =
                (Inr (concat (map hs (servers c)), []),
                 concat (map (\<lambda>cfg. snd (try_body k ?t cfg)) (servers c)))"
    using load_loop_complete [OF ok, of "[]" "[]"] h1 h2 by simp
  have sk: "skip_records (concat (map (\<lambda>cfg. snd (try_body k ?t cfg)) xs)) = []" for xs
    by (induction xs) (simp_all add: skip_records_append try_body_skip_records)
  show ?thesis
    using returned_list_first_ok [OF assms(1) loop] events_first_ok [OF assms(1) loop] sk
    by simp
qed

theorem all_succeed_concat_witness:
  "returned_list (get_tools demo_toolkit (conn_demo [descr ''A'' ''alpha'', descr ''B'' ''beta'']) heap1)
     = Inr [''a1'', ''a2'', ''b1'']"
  using all_succeed_concat [of "conn_demo [descr ''A'' ''alpha'', descr ''B'' ''beta'']"
                               demo_toolkit hs_demo heap1]
  by (simp add: conn_demo_def demo_toolkit_def descr_def hs_demo_def)

subsection \<open>One failing descriptor\<close>

lemma skip_reason_shape:
  assumes "skippable e"
  shows "\<exists>rest. skip_reason k t n e = Some (Inr (fmt k n @ '': '' @ rest)) \<and>
           (kind e = AsyncioTimeout \<longrightarrow> rest = ''get_tools() timed out after '' @ fmt k t @ ''s'')"
  using assms
  by (cases "kind e"; cases "str_exn e")
     (simp_all add: skip_reason_def skippable_def is_Exception_def formats_def with_str_def)

lemma concat_map_success:
  assumes "\<forall>cfg\<in>set xs. \<exists>ts. build_toolset k cfg = Inr ts \<and> wait_for_get_tools k ts t = Inr (hs cfg)"
  shows "concat (map (handles_of k t) xs) = concat (map hs xs)"
    and "concat (map (skips_of k t) xs) = []"
proof -
  have "\<forall>cfg\<in>set xs. handles_of k t cfg = hs cfg \<and> skips_of k t cfg = []"
    using assms by (auto simp: handles_of_def skips_of_def try_body_def)
  then show "concat (map (handles_of k t) xs) = concat (map hs xs)"
    and "concat (map (skips_of k t) xs) = []"
    by (simp_all cong: map_cong)
qed

lemma success_is_ok:
  assumes "\<exists>ts. build_toolset k cfg = Inr ts \<and> wait_for_get_tools k ts t = Inr hs"
  shows "\<forall>e. fst (try_body k t cfg) = Inl e \<longrightarrow> skippable e"
  using assms by (auto simp: try_body_def)

lemma skip_records_loop_events:
  "skip_records (concat (map (\<lambda>cfg. snd (try_body k t cfg)) xs)) = []"
  by (induction xs) (simp_all add: skip_records_append try_body_skip_records)

text \<open>
  C2, as the code has it: on a connector that has not loaded yet, let the descriptor list
  be \<open>pre\<close>, then the mapping \<open>K\<close>, then \<open>post\<close>. When every descriptor of \<open>pre\<close> and
  \<open>post\<close> is a mapping whose factory call and list-tools call return, and the factory call
  or the list-tools call of \<open>K\<close> raises an exception of one of the kinds that the
  \<^verbatim>\<open>except\<close> clauses catch (not found, connect error or transport timeout, the timeout of
  the bounded wait, any other \<^verbatim>\<open>Exception\<close>) which is the timeout of the bounded wait or
  whose \<^verbatim>\<open>str(e)\<close> returns, then the list that \<open>get_tools\<close> returns is the concatenation of
  the handles of \<open>pre\<close> and \<open>post\<close> in their order, with nothing from \<open>K\<close>, and exactly one
  skip reason is recorded; it starts with the name of \<open>K\<close>. When the exception is the
  timeout that the bounded wait raises, whatever the time at which it raises it, the
  reason is the timeout reason: the descriptor is skipped, not counted as loaded.
\<close>

theorem one_failure_is_skipped:
  assumes "\<not> loaded c"
    and "servers c = pre @ [PDict d] @ post"
    and "\<forall>cfg\<in>set (pre @ post). is_dict cfg \<and>
           (\<exists>ts. build_toolset k cfg = Inr ts \<and> wait_for_get_tools k ts (timeout_s c) = Inr (hs cfg))"
    and "fst (try_body k (timeout_s c) (PDict d)) = Inl e"
    and "is_Exception e"
    and "kind e = AsyncioTimeout \<or> formats e"
  shows "returned_list (get_tools k c h) = Inr (concat (map hs (pre @ post))) \<and>
         (\<exists>rest. skip_records (events_of (get_tools k c h)) =
                    [fmt k (dict_get d ''name'' (PStr ''<unnamed>'')) @ '': '' @ rest] \<and>
                  (kind e = AsyncioTimeout \<longrightarrow>
                     rest = ''get_tools() timed out after '' @ fmt k (timeout_s c) @ ''s''))"
proof -
  let ?t = "timeout_s c"
  let ?K = "PDict d"
  let ?n = "dict_get d ''name'' (PStr ''<unnamed>'')"
  have sk_e: "skippable e"
    using assms(5,6) by (simp add: skippable_def)
  obtain rest where rest: "skip_reason k ?t ?n e = Some (Inr (fmt k ?n @ '': '' @ rest))"
    and tmo: "kind e = AsyncioTimeout \<longrightarrow> rest = ''get_tools() timed out after '' @ fmt k ?t @ ''s''"
    using skip_reason_shape [OF sk_e] by blast
  have pre: "\<forall>cfg\<in>set pre. \<exists>ts. build_toolset k cfg = Inr ts \<and> wait_for_get_tools k ts ?t = Inr (hs cfg)"
    and post: "\<forall>cfg\<in>set post. \<exists>ts. build_toolset k cfg = Inr ts \<and> wait_for_get_tools k ts ?t = Inr (hs cfg)"
    using assms(3) by auto
  have K_h: "handles_of k ?t ?K = []"
    using assms(4) by (simp add: handles_of_def)
  have K_s: "skips_of k ?t ?K = [fmt k ?n @ '': '' @ rest]"
    using assms(4) rest by (simp add: skips_of_def get_name_def)
  have ok: "\<forall>cfg\<in>set (servers c). is_dict cfg \<and>
              (\<forall>e. fst (try_body k ?t cfg) = Inl e \<longrightarrow> skippable e)"
    using assms(2,3,4) sk_e success_is_ok [of k _ ?t] by auto
  have hs: "concat (map (handles_of k ?t) (servers c)) = concat (map hs (pre @ post))"
    by (simp add: assms(2) concat_map_success(1) [OF pre] concat_map_success(1) [OF post] K_h)
  have sk: "concat (map (skips_of k ?t) (servers c)) = [fmt k ?n @ '': '' @ rest]"
    by (simp add: assms(2) concat_map_success(2) [OF pre] concat_map_success(2) [OF post] K_s)
  have loop: "load_loop k ?t (servers c) [] [] =
                (Inr (concat (map hs (pre @ post)), [fmt k ?n @ '': '' @ rest]),
                 concat (map (\<lambda>cfg. snd (try_body k ?t cfg)) (servers c)))"
    using load_loop_complete [OF ok, of "[]" "[]"] hs sk by simp
  have r: "returned_list (get_tools k c h) = Inr (concat (map hs (pre @ post)))"
    using returned_list_first_ok [OF assms(1) loop] .
  have "skip_records (events_of (get_tools k c h)) = [fmt k ?n @ '': '' @ rest]"
    using events_first_ok [OF assms(1) loop]
    by (simp add: skip_records_append skip_records_loop_events)
  with r tmo show ?thesis by blast
qed

theorem one_failure_is_skipped_witness:
  "returned_list (get_tools demo_toolkit
      (conn_demo [descr ''A'' ''alpha'', descr ''S'' ''slow'', descr ''B'' ''beta'']) heap1)
     = Inr [''a1'', ''a2'', ''b1''] \<and>
   skip_records (events_of (get_tools demo_toolkit
      (conn_demo [descr ''A'' ''alpha'', descr ''S'' ''slow'', descr ''B'' ''beta'']) heap1))
     = [''S: get_tools() timed out after 10.0s''] \<and>
   returned_list (get_tools demo_toolkit
      (conn_demo [descr ''A'' ''alpha'', descr ''D'' ''down'', descr ''B'' ''beta'']) heap1)
     = Inr [''a1'', ''a2'', ''b1''] \<and>
   length (skip_records (events_of (get_tools demo_toolkit
      (conn_demo [descr ''A'' ''alpha'', descr ''D'' ''down'', descr ''B'' ''beta'']) heap1))) = 1"
proof -
  have slow:
    "returned_list (get_tools demo_toolkit
        (conn_demo [descr ''A'' ''alpha'', descr ''S'' ''slow'', descr ''B'' ''beta'']) heap1)
       = Inr [''a1'', ''a2'', ''b1''] \<and>
     skip_records (events_of (get_tools demo_toolkit
        (conn_demo [descr ''A'' ''alpha'', descr ''S'' ''slow'', descr ''B'' ''beta'']) heap1))
       = [''S: get_tools() timed out after 10.0s'']"
    using one_failure_is_skipped
            [of "conn_demo [descr ''A'' ''alpha'', descr ''S'' ''slow'', descr ''B'' ''beta'']"
                "[descr ''A'' ''alpha'']" "[(''name'', PStr ''S''), (''url'', PStr ''slow'')]"
                "[descr ''B'' ''beta'']" demo_toolkit hs_demo
                "Exn AsyncioTimeout ''TimeoutError'' (Inr [])" heap1]
    by (simp add: conn_demo_def demo_toolkit_def descr_def hs_demo_def try_body_def
          is_Exception_def fmt_def dict_get_def default_timeout_s_def)
  have down:
    "returned_list (get_tools demo_toolkit
        (conn_demo [descr ''A'' ''alpha'', descr ''D'' ''down'', descr ''B'' ''beta'']) heap1)
       = Inr [''a1'', ''a2'', ''b1''] \<and>
     length (skip_records (events_of (get_tools demo_toolkit
        (conn_demo [descr ''A'' ''alpha'', descr ''D'' ''down'', descr ''B'' ''beta'']) heap1))) = 1"
    using one_failure_is_skipped
            [of "conn_demo [descr ''A'' ''alpha'', descr ''D'' ''down'', descr ''B'' ''beta'']"
                "[descr ''A'' ''alpha'']" "[(''name'', PStr ''D''), (''url'', PStr ''down'')]"
                "[descr ''B'' ''beta'']" demo_toolkit hs_demo
                "Exn HttpxConnect ''ConnectError'' (Inr ''refused'')" heap1]
    by (auto simp: conn_demo_def demo_toolkit_def descr_def hs_demo_def try_body_def
          is_Exception_def formats_def)
  from slow down show ?thesis by simp
qed

theorem unprintable_exception_counterexample:
  "fst (try_body demo_toolkit (timeout_s conn_boom) (descr ''K'' ''boom'')) =
     Inl (Exn OtherExc ''Unprintable'' (Inl (RuntimeError ''boom''))) \<and>
   is_Exception (Exn OtherExc ''Unprintable'' (Inl (RuntimeError ''boom''))) \<and>
   fst (get_tools demo_toolkit conn_boom heap1) = Inl (RuntimeError ''boom'') \<and>
   skip_records (events_of (get_tools demo_toolkit conn_boom heap1)) = [] \<and>
   \<not> loaded (conn_of (get_tools demo_toolkit conn_boom heap1))"
  by (simp add: conn_boom_def conn_demo_def demo_toolkit_def descr_def get_tools_def
        load_all_tools_def get_name_def try_body_def skip_reason_def with_str_def
        is_Exception_def events_of_def conn_of_def)

subsection \<open>The load runs once\<close>

lemma load_loop_calls:
  assumes "load_loop k t xs acc fl = (Inr res, evs)"
  shows "factory_calls evs = length xs \<and>
         list_tools_calls evs = length (filter (constructed k) xs)"
  using assms
proof (induction xs arbitrary: acc fl res evs)
  case Nil
  then show ?case by simp
next
  case (Cons cfg rest)
  from Cons.prems obtain n where n: "get_name cfg = Inr n"
    by (cases "get_name cfg") simp_all
  obtain r evs0 where tb: "try_body k t cfg = (r, evs0)"
    by (cases "try_body k t cfg")
  have f0: "factory_calls evs0 = 1"
    using try_body_factory_calls [of k t cfg] tb by simp
  have l0: "list_tools_calls evs0 = (if constructed k cfg then 1 else 0)"
    using try_body_list_tools_calls [of k t cfg] tb by simp
  show ?case
  proof (cases r)
    case (Inr hs)
    obtain r' evs' where rec: "load_loop k t rest (acc @ hs) fl = (r', evs')"
      by (cases "load_loop k t rest (acc @ hs) fl")
    with Cons.prems n tb Inr have "r' = Inr res" and "evs = evs0 @ evs'"
      by simp_all
    with Cons.IH [of "acc @ hs" fl res evs'] rec f0 l0 show ?thesis
      by (simp add: factory_calls_append list_tools_calls_append)
  next
    case (Inl e)
    with Cons.prems n tb obtain reason where reason: "skip_reason k t n e = Some (Inr reason)"
      by (cases "skip_reason k t n e") (auto split: sum.splits)
    obtain r' evs' where rec: "load_loop k t rest acc (fl @ [reason]) = (r', evs')"
      by (cases "load_loop k t rest acc (fl @ [reason])")
    with Cons.prems n tb Inl reason have "r' = Inr res" and "evs = evs0 @ evs'"
      by simp_all
    with Cons.IH [of acc "fl @ [reason]" res evs'] rec f0 l0 show ?thesis
      by (simp add: factory_calls_append list_tools_calls_append)
  qed
qed

lemma get_tools_first_cases:
  assumes "\<not> loaded c" and "get_tools k c h = (Inr r, c', h', evs)"
  obtains ts fl evs0 where "load_loop k (timeout_s c) (servers c) [] [] = (Inr (ts, fl), evs0)"
proof -
  obtain res evs0 where l: "load_loop k (timeout_s c) (servers c) [] [] = (res, evs0)"
    by (cases "load_loop k (timeout_s c) (servers c) [] []")
  show thesis
  proof (cases res)
    case (Inl e)
    with l assms get_tools_first_err [of c k e evs0 h] show thesis by simp
  next
    case (Inr p)
    with l that [of "fst p" "snd p" evs0] show thesis by simp
  qed
qed

text \<open>
  C3, as the code has it: let a first call of \<open>get_tools\<close> on a connector that has not
  loaded yet return. Then the connector is loaded; every later call, on whatever store,
  returns with no event at all (no factory call, no list-tools call, no warning) and leaves
  the connector as it is; the call that follows returns a list with the contents of the
  one the first call returned; and over the two calls the factory is called once for each
  descriptor, and the list-tools capability once for each descriptor for which the factory
  returned a tool source.
\<close>

theorem load_runs_once:
  assumes "\<not> loaded c"
    and "fst (get_tools k c h) = Inr r1"
  shows "loaded (conn_of (get_tools k c h)) \<and>
         (\<forall>h2. get_tools k (conn_of (get_tools k c h)) h2 =
                 (Inr (next_free h2), conn_of (get_tools k c h),
                  snd (alloc h2 (cells h2 (tools_ref (conn_of (get_tools k c h))))), [])) \<and>
         returned_list (get_tools k (conn_of (get_tools k c h)) (heap_of (get_tools k c h))) =
           returned_list (get_tools k c h) \<and>
         factory_calls (twice k c h) = length (servers c) \<and>
         list_tools_calls (twice k c h) = length (filter (constructed k) (servers c))"
proof -
  obtain c1 h1 evs1 where g: "get_tools k c h = (Inr r1, c1, h1, evs1)"
    using assms(2) by (cases "get_tools k c h") auto
  obtain ts fl evs0 where loop: "load_loop k (timeout_s c) (servers c) [] [] = (Inr (ts, fl), evs0)"
    using get_tools_first_cases [OF assms(1) g] by blast
  note first = get_tools_first_ok [OF assms(1) loop, of h]
  from first g have c1: "c1 = c\<lparr>tools_ref := next_free h, loaded := True\<rparr>"
    and h1: "h1 = snd (alloc (snd (alloc h ts)) ts)"
    and r1: "r1 = Suc (next_free h)"
    and evs1: "evs1 = evs0 @ (if fl \<noteq> [] then [WarnSkipped fl] else [])"
    by simp_all
  have l: "loaded c1" using c1 by simp
  have later: "get_tools k c1 h2 =
                 (Inr (next_free h2), c1, snd (alloc h2 (cells h2 (tools_ref c1))), [])" for h2
    using get_tools_loaded [OF l] .
  have "returned_list (get_tools k c1 h1) = Inr (cells h1 (tools_ref c1))"
    by (simp add: later returned_list_def alloc_def)
  moreover have "cells h1 (tools_ref c1) = cells h1 r1"
    by (simp add: c1 h1 r1 alloc_def)
  moreover have "returned_list (get_tools k c h) = Inr (cells h1 r1)"
    by (simp add: g returned_list_def)
  ultimately have same: "returned_list (get_tools k c1 h1) = returned_list (get_tools k c h)"
    by simp
  have tw: "twice k c h = evs1"
    by (simp add: twice_def g events_of_def conn_of_def heap_of_def later)
  have calls: "factory_calls evs0 = length (servers c) \<and>
               list_tools_calls evs0 = length (filter (constructed k) (servers c))"
    using load_loop_calls [OF loop] .
  have "factory_calls evs1 = factory_calls evs0" and "list_tools_calls evs1 = list_tools_calls evs0"
    by (simp_all add: evs1 factory_calls_append list_tools_calls_append)
  with calls tw have counts: "factory_calls (twice k c h) = length (servers c) \<and>
      list_tools_calls (twice k c h) = length (filter (constructed k) (servers c))"
    by simp
  have co: "conn_of (get_tools k c h) = c1" and ho: "heap_of (get_tools k c h) = h1"
    by (simp_all add: g conn_of_def heap_of_def)
  show ?thesis
    unfolding co ho using l later same counts by blast
qed

lemma demo_first_call:
  "fst (get_tools demo_toolkit
          (conn_demo [descr ''A'' ''alpha'', descr ''S'' ''slow'', descr ''B'' ''beta'']) heap1) = Inr 2"
  by (simp add: conn_demo_def demo_toolkit_def descr_def get_tools_def load_all_tools_def
        get_name_def try_body_def skip_reason_def with_str_def alloc_def heap1_def)

theorem load_runs_once_witness:
  "factory_calls (twice demo_toolkit
      (conn_demo [descr ''A'' ''alpha'', descr ''S'' ''slow'', descr ''B'' ''beta'']) heap1) = 3 \<and>
   list_tools_calls (twice demo_toolkit
      (conn_demo [descr ''A'' ''alpha'', descr ''S'' ''slow'', descr ''B'' ''beta'']) heap1) = 3"
proof -
  have nl: "\<not> loaded (conn_demo [descr ''A'' ''alpha'', descr ''S'' ''slow'', descr ''B'' ''beta''])"
    by (simp add: conn_demo_def)
  have con: "filter (constructed demo_toolkit)
               [descr ''A'' ''alpha'', descr ''S'' ''slow'', descr ''B'' ''beta''] =
             [descr ''A'' ''alpha'', descr ''S'' ''slow'', descr ''B'' ''beta'']"
    by (simp add: constructed_def demo_toolkit_def descr_def)
  show ?thesis
    using load_runs_once [OF nl demo_first_call] con by (simp add: conn_demo_def)
qed

theorem list_tools_not_called_counterexample:
  "loaded (conn_of (get_tools stub_toolkit (conn_demo [descr ''A'' ''alpha'']) heap1)) \<and>
   length (servers (conn_demo [descr ''A'' ''alpha''])) = 1 \<and>
   factory_calls (twice stub_toolkit (conn_demo [descr ''A'' ''alpha'']) heap1) = 1 \<and>
   list_tools_calls (twice stub_toolkit (conn_demo [descr ''A'' ''alpha'']) heap1) = 0"
  by (simp add: twice_def conn_of_def heap_of_def events_of_def conn_demo_def stub_toolkit_def
        demo_toolkit_def descr_def get_tools_def load_all_tools_def get_name_def try_body_def
        skip_reason_def with_str_def alloc_def build_toolset_stub_def NotImplementedError_def)

subsection \<open>Exceptions of the collaborators\<close>

lemma load_loop_append:
  assumes "load_loop k t pre acc fl = (Inr (acc', fl'), evs)"
  shows "load_loop k t (pre @ rest) acc fl =
           (fst (load_loop k t rest acc' fl'), evs @ snd (load_loop k t rest acc' fl'))"
  using assms
proof (induction pre arbitrary: acc fl evs)
  case Nil
  then show ?case by simp
next
  case (Cons cfg pre)
  from Cons.prems obtain n where n: "get_name cfg = Inr n"
    by (cases "get_name cfg") simp_all
  obtain r evs0 where tb: "try_body k t cfg = (r, evs0)"
    by (cases "try_body k t cfg")
  show ?case
  proof (cases r)
    case (Inr hs)
    obtain r' evs' where rec: "load_loop k t pre (acc @ hs) fl = (r', evs')"
      by (cases "load_loop k t pre (acc @ hs) fl")
    with Cons.prems n tb Inr have "r' = Inr (acc', fl')" and "evs = evs0 @ evs'"
      by simp_all
    with Cons.IH [of "acc @ hs" fl evs'] rec n tb Inr show ?thesis
      by (simp add: load_loop_step_ok del: load_loop.simps)
  next
    case (Inl e)
    with Cons.prems n tb obtain reason where reason: "skip_reason k t n e = Some (Inr reason)"
      by (cases "skip_reason k t n e") (auto split: sum.splits)
    obtain r' evs' where rec: "load_loop k t pre acc (fl @ [reason]) = (r', evs')"
      by (cases "load_loop k t pre acc (fl @ [reason])")
    with Cons.prems n tb Inl reason have "r' = Inr (acc', fl')" and "evs = evs0 @ evs'"
      by simp_all
    with Cons.IH [of acc "fl @ [reason]" evs'] rec n tb Inl reason show ?thesis
      by (simp add: load_loop_step_skip del: load_loop.simps)
  qed
qed

lemma skip_reason_NonExc: "\<not> is_Exception e \<Longrightarrow> skip_reason k t n e = None"
  by (simp add: skip_reason_def with_str_def is_Exception_def)

lemma length_skips:
  assumes "\<forall>cfg\<in>set xs. is_dict cfg \<and> (\<forall>e. fst (try_body k t cfg) = Inl e \<longrightarrow> skippable e)"
  shows "length (concat (map (skips_of k t) xs)) = length (filter (\<lambda>cfg. isl (fst (try_body k t cfg))) xs)"
  using assms
proof (induction xs)
  case Nil
  then show ?case by simp
next
  case (Cons cfg rest)
  obtain n where n: "get_name cfg = Inr n"
    using Cons.prems get_name_dict by fastforce
  have "length (skips_of k t cfg) = (if isl (fst (try_body k t cfg)) then 1 else 0)"
  proof (cases "fst (try_body k t cfg)")
    case (Inl e)
    with Cons.prems have "skippable e" by simp
    then obtain reason where "skip_reason k t n e = Some (Inr reason)"
      using skip_reason_Some by blast
    with Inl n show ?thesis by (simp add: skips_of_def)
  next
    case (Inr hs)
    then show ?thesis by (simp add: skips_of_def)
  qed
  with Cons show ?case by simp
qed

lemma exception_escapes:
  assumes "\<forall>cfg\<in>set pre. is_dict cfg \<and> (\<forall>e. fst (try_body k t cfg) = Inl e \<longrightarrow> skippable e)"
    and "fst (try_body k t (PDict d)) = Inl x"
    and "\<not> is_Exception x"
  shows "fst (load_loop k t (pre @ PDict d # post) [] []) = Inl x"
proof -
  obtain evs where tb: "try_body k t (PDict d) = (Inl x, evs)"
    using assms(2) by (cases "try_body k t (PDict d)") simp
  have n: "get_name (PDict d) = Inr (dict_get d ''name'' (PStr ''<unnamed>''))"
    by (simp add: get_name_def)
  show ?thesis
    using load_loop_append [OF load_loop_complete [OF assms(1), of "[]" "[]"], of "PDict d # post"]
    by (simp add: load_loop_step_escape [OF n tb skip_reason_NonExc [OF assms(3)]]
             del: load_loop.simps)
qed

text \<open>
  C9, as the code has it. First: when every descriptor is a mapping and every exception
  that a factory call or a list-tools call raises for one of them is an instance of
  \<^verbatim>\<open>Exception\<close> that is the timeout of the bounded wait or whose \<^verbatim>\<open>str(e)\<close> returns,
  \<open>get_tools\<close> returns: nothing propagates. On a connector that has not loaded yet the
  returned list then holds the handles of the descriptors that loaded, and the skip
  reasons recorded are one for each descriptor whose factory call or list-tools call
  raised, in descriptor order. Second: on a connector that has not loaded yet, when the
  descriptors before the mapping \<open>K\<close> are as in the first part and the factory call or the
  list-tools call of \<open>K\<close> raises an exception that is not an instance of \<^verbatim>\<open>Exception\<close>,
  \<open>get_tools\<close> raises that exception.
\<close>

theorem exceptions_become_skips:
  "((\<forall>cfg\<in>set (servers c). is_dict cfg \<and>
        (\<forall>e. fst (try_body k (timeout_s c) cfg) = Inl e \<longrightarrow> skippable e)) \<longrightarrow>
      (\<exists>r. fst (get_tools k c h) = Inr r) \<and>
      (\<not> loaded c \<longrightarrow>
         returned_list (get_tools k c h) =
           Inr (concat (map (handles_of k (timeout_s c)) (servers c))) \<and>
         skip_records (events_of (get_tools k c h)) =
           concat (map (skips_of k (timeout_s c)) (servers c)) \<and>
         length (skip_records (events_of (get_tools k c h))) =
           length (filter (\<lambda>cfg. isl (fst (try_body k (timeout_s c) cfg))) (servers c)))) \<and>
   (\<not> loaded c \<and> servers c = pre @ PDict d # post \<and>
      (\<forall>cfg\<in>set pre. is_dict cfg \<and>
         (\<forall>e. fst (try_body k (timeout_s c) cfg) = Inl e \<longrightarrow> skippable e)) \<and>
      fst (try_body k (timeout_s c) (PDict d)) = Inl x \<and> \<not> is_Exception x \<longrightarrow>
      fst (get_tools k c h) = Inl x)"
proof (intro conjI impI)
  assume hyp: "\<forall>cfg\<in>set (servers c). is_dict cfg \<and>
                 (\<forall>e. fst (try_body k (timeout_s c) cfg) = Inl e \<longrightarrow> skippable e)"
  note loop = load_loop_complete [OF hyp, of "[]" "[]", simplified]
  show "\<exists>r. fst (get_tools k c h) = Inr r"
  proof (cases "loaded c")
    case True
    then show ?thesis by (simp add: get_tools_loaded)
  next
    case False
    then show ?thesis using get_tools_first_ok [OF False loop, of h] by simp
  qed
  assume nl: "\<not> loaded c"
  show "returned_list (get_tools k c h) =
          Inr (concat (map (handles_of k (timeout_s c)) (servers c)))"
    using returned_list_first_ok [OF nl loop] .
  show s: "skip_records (events_of (get_tools k c h)) =
          concat (map (skips_of k (timeout_s c)) (servers c))"
    using events_first_ok [OF nl loop, of h]
    by (simp add: skip_records_append skip_records_loop_events del: concat_eq_Nil_conv)
  show "length (skip_records (events_of (get_tools k c h))) =
          length (filter (\<lambda>cfg. isl (fst (try_body k (timeout_s c) cfg))) (servers c))"
    unfolding s using length_skips [OF hyp] .
next
  assume a: "\<not> loaded c \<and> servers c = pre @ PDict d # post \<and>
      (\<forall>cfg\<in>set pre. is_dict cfg \<and>
         (\<forall>e. fst (try_body k (timeout_s c) cfg) = Inl e \<longrightarrow> skippable e)) \<and>
      fst (try_body k (timeout_s c) (PDict d)) = Inl x \<and> \<not> is_Exception x"
  then have nl: "\<not> loaded c" and sv: "servers c = pre @ PDict d # post"
    and pre: "\<forall>cfg\<in>set pre. is_dict cfg \<and>
                (\<forall>e. fst (try_body k (timeout_s c) cfg) = Inl e \<longrightarrow> skippable e)"
    and tb: "fst (try_body k (timeout_s c) (PDict d)) = Inl x" and nx: "\<not> is_Exception x"
    by blast+
  obtain evs where loop: "load_loop k (timeout_s c) (servers c) [] [] = (Inl x, evs)"
    using exception_escapes [OF pre tb nx, of post] sv
    by (cases "load_loop k (timeout_s c) (servers c) [] []") simp
  show "fst (get_tools k c h) = Inl x"
    using get_tools_first_err [OF nl loop, of h] by simp
qed

theorem exceptions_become_skips_witness:
  "fst (get_tools demo_toolkit conn_mixed heap1) = Inr 2 \<and>
   returned_list (get_tools demo_toolkit conn_mixed heap1) = Inr [''a1'', ''a2'', ''b1''] \<and>
   length (skip_records (events_of (get_tools demo_toolkit conn_mixed heap1))) = 4 \<and>
   fst (get_tools demo_toolkit conn_cancel heap1) = Inl (Exn NonExc ''CancelledError'' (Inr []))"
proof -
  have hyp: "\<forall>cfg\<in>set (servers conn_mixed). is_dict cfg \<and>
               (\<forall>e. fst (try_body demo_toolkit (timeout_s conn_mixed) cfg) = Inl e \<longrightarrow> skippable e)"
    by (simp add: conn_mixed_def conn_demo_def descr_def demo_toolkit_def try_body_def
          skippable_def formats_def is_Exception_def FileNotFoundError_def ValueError_def)
  have nl: "\<not> loaded conn_mixed"
    by (simp add: conn_mixed_def conn_demo_def)
  have f: "fst (get_tools demo_toolkit conn_mixed heap1) = Inr 2"
    by (simp add: conn_mixed_def conn_demo_def demo_toolkit_def descr_def get_tools_def
          load_all_tools_def get_name_def try_body_def skip_reason_def with_str_def alloc_def
          heap1_def FileNotFoundError_def ValueError_def)
  have hs: "concat (map (handles_of demo_toolkit (timeout_s conn_mixed)) (servers conn_mixed)) =
              [''a1'', ''a2'', ''b1'']"
    by (simp add: conn_mixed_def conn_demo_def descr_def demo_toolkit_def try_body_def
          handles_of_def)
  have n: "length (filter (\<lambda>cfg. isl (fst (try_body demo_toolkit (timeout_s conn_mixed) cfg)))
                    (servers conn_mixed)) = 4"
    by (simp add: conn_mixed_def conn_demo_def descr_def demo_toolkit_def try_body_def)
  note th = exceptions_become_skips [of conn_mixed demo_toolkit heap1]
  from th hyp nl have a: "returned_list (get_tools demo_toolkit conn_mixed heap1) =
      Inr (concat (map (handles_of demo_toolkit (timeout_s conn_mixed)) (servers conn_mixed)))"
    by blast
  from th hyp nl have b: "length (skip_records (events_of (get_tools demo_toolkit conn_mixed heap1))) =
      length (filter (\<lambda>cfg. isl (fst (try_body demo_toolkit (timeout_s conn_mixed) cfg)))
                (servers conn_mixed))"
    by blast
  have c: "\<not> loaded conn_cancel \<and>
           servers conn_cancel = [descr ''A'' ''alpha''] @
             PDict [(''name'', PStr ''C''), (''url'', PStr ''cancel'')] # [descr ''B'' ''beta''] \<and>
           (\<forall>cfg\<in>set [descr ''A'' ''alpha'']. is_dict cfg \<and>
              (\<forall>e. fst (try_body demo_toolkit (timeout_s conn_cancel) cfg) = Inl e \<longrightarrow> skippable e)) \<and>
           fst (try_body demo_toolkit (timeout_s conn_cancel)
                  (PDict [(''name'', PStr ''C''), (''url'', PStr ''cancel'')])) =
             Inl (Exn NonExc ''CancelledError'' (Inr [])) \<and>
           \<not> is_Exception (Exn NonExc ''CancelledError'' (Inr []))"
    by (simp add: conn_cancel_def conn_demo_def descr_def demo_toolkit_def try_body_def
          is_Exception_def)
  have d: "fst (get_tools demo_toolkit conn_cancel heap1) = Inl (Exn NonExc ''CancelledError'' (Inr []))"
    using exceptions_become_skips
            [of conn_cancel demo_toolkit heap1 "[descr ''A'' ''alpha'']"
                "[(''name'', PStr ''C''), (''url'', PStr ''cancel'')]" "[descr ''B'' ''beta'']"
                "Exn NonExc ''CancelledError'' (Inr [])"] c
    by blast
  show ?thesis
    unfolding f a hs b n d by simp
qed

theorem cancellation_propagates_counterexample:
  "is_dict (descr ''C'' ''cancel'') \<and>
   fst (get_tools demo_toolkit (conn_demo [descr ''C'' ''cancel'']) heap1) =
     Inl (Exn NonExc ''CancelledError'' (Inr []))"
  by (simp add: conn_demo_def demo_toolkit_def descr_def get_tools_def load_all_tools_def
        get_name_def try_body_def skip_reason_def with_str_def)

subsection \<open>The returned list is a copy\<close>

lemma init_valid:
  assumes "init env sa t h = (Inr c, h', evs)"
  shows "valid c h' \<and> \<not> loaded c \<and> cells h' (tools_ref c) = []"
  using assms
  by (auto simp: init_def alloc_def valid_def Let_def
           split: option.splits prod.splits sum.splits if_splits)

text \<open>
  C8: let \<open>get_tools\<close> return on a connector whose cache is a list object of the store.
  The list object it returns is a new one, distinct from the cache, with the contents of
  the cache. Whatever an in-place change of the returned list makes of its contents, the
  contents of the cache are as before, and the next call of \<open>get_tools\<close> returns a list
  with the contents the cache had, leaving the connector as it is.
\<close>

theorem get_tools_returns_copy:
  assumes "valid c h"
    and "fst (get_tools k c h) = Inr r"
  shows "r \<noteq> tools_ref (conn_of (get_tools k c h)) \<and>
         valid (conn_of (get_tools k c h)) (heap_of (get_tools k c h)) \<and>
         cells (heap_of (get_tools k c h)) r =
           cells (heap_of (get_tools k c h)) (tools_ref (conn_of (get_tools k c h))) \<and>
         (\<forall>ys. cells (mutate (heap_of (get_tools k c h)) r ys)
                      (tools_ref (conn_of (get_tools k c h))) =
                 cells (heap_of (get_tools k c h)) (tools_ref (conn_of (get_tools k c h))) \<and>
               returned_list (get_tools k (conn_of (get_tools k c h))
                                (mutate (heap_of (get_tools k c h)) r ys)) =
                 returned_list (get_tools k c h) \<and>
               conn_of (get_tools k (conn_of (get_tools k c h))
                          (mutate (heap_of (get_tools k c h)) r ys)) =
                 conn_of (get_tools k c h))"
proof (cases "loaded c")
  case True
  have g: "get_tools k c h = (Inr (next_free h), c, snd (alloc h (cells h (tools_ref c))), [])"
    using get_tools_loaded [OF True] .
  have r: "r = next_free h" using assms(2) g by simp
  have lt: "tools_ref c < next_free h" using assms(1) by (simp add: valid_def)
  show ?thesis
    using lt True
    by (simp add: g r conn_of_def heap_of_def valid_def alloc_def mutate_def
          get_tools_loaded returned_list_def)
next
  case False
  obtain c1 h1 evs1 where g: "get_tools k c h = (Inr r, c1, h1, evs1)"
    using assms(2) by (cases "get_tools k c h") auto
  obtain ts fl evs0 where loop: "load_loop k (timeout_s c) (servers c) [] [] = (Inr (ts, fl), evs0)"
    using get_tools_first_cases [OF False g] by blast
  note first = get_tools_first_ok [OF False loop, of h]
  have r: "r = Suc (next_free h)" using first g by simp
  have l: "loaded (c\<lparr>tools_ref := next_free h, loaded := True\<rparr>)" by simp
  show ?thesis
    by (simp add: first r conn_of_def heap_of_def valid_def alloc_def mutate_def
          get_tools_loaded [OF l] returned_list_def)
qed

theorem get_tools_returns_copy_witness:
  "cells (mutate (heap_of (get_tools demo_toolkit conn_mixed heap1)) 2 [''injected''])
         (tools_ref (conn_of (get_tools demo_toolkit conn_mixed heap1))) =
     [''a1'', ''a2'', ''b1''] \<and>
   returned_list (get_tools demo_toolkit (conn_of (get_tools demo_toolkit conn_mixed heap1))
                    (mutate (heap_of (get_tools demo_toolkit conn_mixed heap1)) 2 [''injected''])) =
     Inr [''a1'', ''a2'', ''b1'']"
proof -
  have v: "valid conn_mixed heap1"
    by (simp add: valid_def conn_mixed_def conn_demo_def heap1_def)
  have f: "fst (get_tools demo_toolkit conn_mixed heap1) = Inr 2"
    by (simp add: conn_mixed_def conn_demo_def demo_toolkit_def descr_def get_tools_def
          load_all_tools_def get_name_def try_body_def skip_reason_def with_str_def alloc_def heap1_def
          FileNotFoundError_def ValueError_def)
  have c: "returned_list (get_tools demo_toolkit conn_mixed heap1) = Inr [''a1'', ''a2'', ''b1'']"
    by (simp add: conn_mixed_def conn_demo_def demo_toolkit_def descr_def get_tools_def
          load_all_tools_def get_name_def try_body_def skip_reason_def with_str_def alloc_def heap1_def
          FileNotFoundError_def ValueError_def returned_list_def)
  have t: "cells (heap_of (get_tools demo_toolkit conn_mixed heap1))
                 (tools_ref (conn_of (get_tools demo_toolkit conn_mixed heap1))) =
             [''a1'', ''a2'', ''b1'']"
    using get_tools_returns_copy [OF v f] c f
    by (simp add: returned_list_def heap_of_def split: prod.splits sum.splits)
  show ?thesis
    using get_tools_returns_copy [OF v f] c t by simp
qed

subsection \<open>A load that raises\<close>

lemma non_mapping_escapes:
  assumes "\<forall>cfg\<in>set pre. is_dict cfg \<and> (\<forall>e. fst (try_body k t cfg) = Inl e \<longrightarrow> skippable e)"
    and "\<not> is_dict v"
  shows "load_loop k t (pre @ v # post) [] [] =
           (Inl (AttributeError_get v), concat (map (\<lambda>cfg. snd (try_body k t cfg)) pre))"
proof -
  have v: "get_name v = Inl (AttributeError_get v)"
    using assms(2) by (cases v) (simp_all add: get_name_def)
  show ?thesis
    using load_loop_append [OF load_loop_complete [OF assms(1), of "[]" "[]"], of "v # post"]
    by (simp add: load_loop_step_nodict [OF v] del: load_loop.simps)
qed

text \<open>
  C10: when \<open>get_tools\<close> raises, the connector and the store are exactly as before the
  call: the loaded flag is false, the cache is the list object it was, with its contents
  (empty if it was empty), and calling \<open>get_tools\<close> again runs the load from the first
  descriptor, with the same events and the same exception.
\<close>

theorem failed_load_leaves_state:
  assumes "fst (get_tools k c h) = Inl e"
  shows "conn_of (get_tools k c h) = c \<and> heap_of (get_tools k c h) = h \<and>
         \<not> loaded (conn_of (get_tools k c h)) \<and>
         (cells h (tools_ref c) = [] \<longrightarrow>
            cells (heap_of (get_tools k c h)) (tools_ref (conn_of (get_tools k c h))) = []) \<and>
         get_tools k (conn_of (get_tools k c h)) (heap_of (get_tools k c h)) = get_tools k c h \<and>
         events_of (get_tools k c h) = snd (load_loop k (timeout_s c) (servers c) [] [])"
proof -
  obtain c1 h1 evs1 where g: "get_tools k c h = (Inl e, c1, h1, evs1)"
    using assms by (cases "get_tools k c h") auto
  have nl: "\<not> loaded c"
    using get_tools_err_not_loaded [OF g] .
  obtain res evs0 where loop: "load_loop k (timeout_s c) (servers c) [] [] = (res, evs0)"
    by (cases "load_loop k (timeout_s c) (servers c) [] []")
  have "\<exists>e'. res = Inl e'"
  proof (cases res)
    case (Inl e')
    then show ?thesis by simp
  next
    case (Inr p)
    with loop get_tools_first_ok [OF nl, of k "fst p" "snd p" evs0 h] g show ?thesis by simp
  qed
  then obtain e' where "res = Inl e'" by blast
  with loop have g': "get_tools k c h = (Inl e', c, h, evs0)"
    using get_tools_first_err [OF nl] by simp
  show ?thesis
    using nl by (simp add: g' conn_of_def heap_of_def events_of_def loop)
qed

lemma bad_first_call:
  "get_tools demo_toolkit conn_bad heap1 =
     (Inl (AttributeError_get (PStr ''oops'')), conn_bad, heap1,
      [BuildToolset (descr ''A'' ''alpha''), GetTools ''alpha''])"
  by (simp add: conn_bad_def conn_demo_def demo_toolkit_def descr_def get_tools_def
        load_all_tools_def get_name_def try_body_def)

theorem failed_load_leaves_state_witness:
  "\<not> loaded (conn_of (get_tools demo_toolkit conn_bad heap1)) \<and>
   cells (heap_of (get_tools demo_toolkit conn_bad heap1))
         (tools_ref (conn_of (get_tools demo_toolkit conn_bad heap1))) = [] \<and>
   get_tools demo_toolkit (conn_of (get_tools demo_toolkit conn_bad heap1))
                          (heap_of (get_tools demo_toolkit conn_bad heap1)) =
     (Inl (AttributeError_get (PStr ''oops'')), conn_bad, heap1,
      [BuildToolset (descr ''A'' ''alpha''), GetTools ''alpha''])"
proof -
  have f: "fst (get_tools demo_toolkit conn_bad heap1) = Inl (AttributeError_get (PStr ''oops''))"
    by (simp add: bad_first_call)
  have e: "cells heap1 (tools_ref conn_bad) = []"
    by (simp add: heap1_def)
  note th = failed_load_leaves_state [OF f]
  from th have a: "\<not> loaded (conn_of (get_tools demo_toolkit conn_bad heap1))"
    by blast
  from th e have b: "cells (heap_of (get_tools demo_toolkit conn_bad heap1))
         (tools_ref (conn_of (get_tools demo_toolkit conn_bad heap1))) = []"
    by blast
  from th have c: "get_tools demo_toolkit (conn_of (get_tools demo_toolkit conn_bad heap1))
                          (heap_of (get_tools demo_toolkit conn_bad heap1)) =
                   get_tools demo_toolkit conn_bad heap1"
    by blast
  show ?thesis
    using a b c bad_first_call by (simp only: simp_thms)
qed

section \<open>Construction\<close>

lemma lower_json: "lower ''.json'' = ''.json''"
  by (simp add: lower_def lower_char_def)

lemma select_servers_Exception:
  assumes "select_servers p data = Inl e"
  shows "is_Exception e"
  using assms
  by (auto simp: select_servers_def is_Exception_def ValueError_def TypeError_def Let_def
           split: pyval.splits)

lemma first_existing_None:
  "fst (first_existing env ps) = None \<longleftrightarrow> (\<forall>p\<in>set ps. \<not> path_exists env p)"
  by (induction ps) (auto split: prod.splits)

lemma default_path_None:
  "fst (default_servers_config_path env) = None \<longleftrightarrow>
     \<not> env_truthy (getenv env ''MCP_SERVERS_PATH'') \<and>
     \<not> env_truthy (getenv env ''MCP_CONFIG_PATH'') \<and>
     (\<forall>p\<in>set (candidates (repo_root env)). \<not> path_exists env p)"
proof (cases "env_truthy (getenv env ''MCP_SERVERS_PATH'')")
  case True
  then show ?thesis
    by (cases "getenv env ''MCP_SERVERS_PATH''") (simp_all add: default_servers_config_path_def)
next
  case a: False
  show ?thesis
  proof (cases "env_truthy (getenv env ''MCP_CONFIG_PATH'')")
    case True
    with a show ?thesis
      by (cases "getenv env ''MCP_CONFIG_PATH''") (simp_all add: default_servers_config_path_def)
  next
    case False
    with a first_existing_None [of env "candidates (repo_root env)"] show ?thesis
      by (cases "first_existing env (candidates (repo_root env))")
         (simp add: default_servers_config_path_def)
  qed
qed

lemma init_config_error:
  assumes "default_servers_config_path env = (Some p, evs)"
    and "load_servers_from_file env p = (Inl e, evs')"
    and "is_Exception e"
  shows "init env None t h =
           (Inr \<lparr>timeout_s = t, tools_ref = next_free h, loaded = False, servers = []\<rparr>,
            snd (alloc h []), evs @ evs')"
  using assms by (simp add: init_def alloc_def)

lemma caught_asI:
  assumes "fst (default_servers_config_path env) = Some p"
    and "fst (load_servers_from_file env p) = Inl e"
    and "is_Exception e"
  shows "caught_as env p t h e"
proof -
  obtain evs where path: "default_servers_config_path env = (Some p, evs)"
    using assms(1) by (cases "default_servers_config_path env") simp
  obtain evs' where l: "load_servers_from_file env p = (Inl e, evs')"
    using assms(2) by (cases "load_servers_from_file env p") simp
  show ?thesis
    by (simp add: caught_as_def init_config_error [OF path l assms(3)] l alloc_def
          empty_connector_def)
qed

lemma select_servers_dict:
  "select_servers p (PDict d) =
     (case chosen d of
        PNone \<Rightarrow>
          Inl (ValueError (''No '' @ [CHR 0x27] @ ''servers'' @ [CHR 0x27] @
                           '' key found in '' @ p))
      | PList xs \<Rightarrow> Inr xs
      | _ \<Rightarrow>
          Inl (TypeError ([CHR 0x27] @ ''servers'' @ [CHR 0x27] @ '' must be a list in '' @ p)))"
  by (cases "py_or (py_or (dict_get d ''servers'' PNone) (dict_get d ''mcpServers'' PNone))
                   (dict_get d ''mcp_servers'' PNone)")
     (simp_all add: select_servers_def chosen_def)

lemma load_absent:
  assumes "\<not> path_exists env p"
  shows "fst (load_servers_from_file env p) =
           Inl (FileNotFoundError (''MCP servers config not found: '' @ p))"
  using assms by (simp add: load_servers_from_file_def)

lemma load_parse_error:
  assumes "path_exists env p" and "fst (parse_config env p) = Inl e"
  shows "fst (load_servers_from_file env p) = Inl e"
  using assms by (cases "parse_config env p") (simp add: load_servers_from_file_def)

lemma load_parsed:
  assumes "path_exists env p" and "fst (parse_config env p) = Inr data"
  shows "fst (load_servers_from_file env p) = select_servers p data"
  using assms by (cases "parse_config env p") (simp add: load_servers_from_file_def)

lemma parse_json_error:
  assumes "lower (path_suffix env p) \<notin> set [''.yaml'', ''.yml'']"
    and "read_text env p = Inr body" and "json_loads env body = Inl e"
  shows "fst (parse_config env p) = Inl e"
  using assms by (simp add: parse_config_def)

lemma parse_yaml_error:
  assumes "lower (path_suffix env p) \<in> set [''.yaml'', ''.yml'']"
    and "import_yaml env = None"
    and "read_text env p = Inr body" and "yaml_safe_load env body = Inl e"
  shows "fst (parse_config env p) = Inl e"
  using assms by (simp add: parse_config_def)

lemma parse_yaml_unavailable:
  assumes "lower (path_suffix env p) \<in> set [''.yaml'', ''.yml'']"
    and "import_yaml env = Some x" and "is_Exception x" and "str_exn x = Inr m"
  shows "fst (parse_config env p) =
           Inl (RuntimeError (''YAML config requested but PyYAML is not installed. '' @
                              ''Install pyyaml or use JSON. ('' @ m @ '')''))"
  using assms by (simp add: parse_config_def with_str_def)

lemma select_unsupported:
  assumes "\<not> is_dict data" and "\<not> is_list data"
  shows "select_servers p data =
           Inl (TypeError (''Unsupported config format in '' @ p @ '': expected dict or list''))"
  using assms by (cases data) (simp_all add: select_servers_def)

lemma select_not_a_list:
  assumes "chosen d \<noteq> PNone" and "\<not> is_list (chosen d)"
  shows "select_servers p (PDict d) =
           Inl (TypeError ([CHR 0x27] @ ''servers'' @ [CHR 0x27] @ '' must be a list in '' @ p))"
  using assms by (cases "chosen d") (simp_all add: select_servers_dict)

lemma builtin_is_Exception:
  "is_Exception (FileNotFoundError a)" "is_Exception (RuntimeError a)"
  "is_Exception (ValueError a)" "is_Exception (TypeError a)"
  by (simp_all add: is_Exception_def FileNotFoundError_def RuntimeError_def ValueError_def
        TypeError_def)

text \<open>
  C4, as the code has it: let no list be passed and let path resolution select the file
  \<open>p\<close>. In each of the following cases the file loader raises the error named, and
  construction catches it: it returns a connector with an empty descriptor list, the
  loaded flag false and an empty cache.
  \<^item> The file does not exist: \<^verbatim>\<open>FileNotFoundError\<close>.
  \<^item> The file exists, has no YAML suffix, and \<^verbatim>\<open>json.loads\<close> raises the \<^verbatim>\<open>Exception\<close>
    \<open>e\<close> on its text: \<open>e\<close>.
  \<^item> The file exists, has a YAML suffix, \<^verbatim>\<open>import yaml\<close> succeeds and \<^verbatim>\<open>yaml.safe_load\<close>
    raises the \<^verbatim>\<open>Exception\<close> \<open>e\<close> on its text: \<open>e\<close>.
  \<^item> The file parses to a value that is neither a mapping nor a list: \<^verbatim>\<open>TypeError\<close>
    (unsupported format).
  \<^item> The file parses to a mapping for which line 43 selects \<^verbatim>\<open>None\<close>: \<^verbatim>\<open>ValueError\<close>.
  \<^item> The file parses to a mapping for which line 43 selects a value that is neither
    \<^verbatim>\<open>None\<close> nor a list: \<^verbatim>\<open>TypeError\<close> (must be a list).
  \<^item> The file exists, has a YAML suffix, and \<^verbatim>\<open>import yaml\<close> raises an \<^verbatim>\<open>Exception\<close> whose
    \<^verbatim>\<open>str\<close> returns \<open>m\<close>: \<^verbatim>\<open>RuntimeError\<close>, with \<open>m\<close> in its text.
\<close>

theorem config_errors_are_caught:
  assumes "fst (default_servers_config_path env) = Some p"
  shows
    "(\<not> path_exists env p \<longrightarrow>
        caught_as env p t h (FileNotFoundError (''MCP servers config not found: '' @ p))) \<and>
     (path_exists env p \<and> lower (path_suffix env p) \<notin> set [''.yaml'', ''.yml''] \<and>
      read_text env p = Inr body \<and> json_loads env body = Inl e \<and> is_Exception e \<longrightarrow>
        caught_as env p t h e) \<and>
     (path_exists env p \<and> lower (path_suffix env p) \<in> set [''.yaml'', ''.yml''] \<and>
      import_yaml env = None \<and> read_text env p = Inr body \<and> yaml_safe_load env body = Inl e \<and>
      is_Exception e \<longrightarrow>
        caught_as env p t h e) \<and>
     (path_exists env p \<and> fst (parse_config env p) = Inr data \<and>
      \<not> is_dict data \<and> \<not> is_list data \<longrightarrow>
        caught_as env p t h
          (TypeError (''Unsupported config format in '' @ p @ '': expected dict or list''))) \<and>
     (path_exists env p \<and> fst (parse_config env p) = Inr (PDict d) \<and> chosen d = PNone \<longrightarrow>
        caught_as env p t h
          (ValueError (''No '' @ [CHR 0x27] @ ''servers'' @ [CHR 0x27] @
                       '' key found in '' @ p))) \<and>
     (path_exists env p \<and> fst (parse_config env p) = Inr (PDict d) \<and>
      chosen d \<noteq> PNone \<and> \<not> is_list (chosen d) \<longrightarrow>
        caught_as env p t h
          (TypeError ([CHR 0x27] @ ''servers'' @ [CHR 0x27] @ '' must be a list in '' @ p))) \<and>
     (path_exists env p \<and> lower (path_suffix env p) \<in> set [''.yaml'', ''.yml''] \<and>
      import_yaml env = Some x \<and> is_Exception x \<and> str_exn x = Inr m \<longrightarrow>
        caught_as env p t h
          (RuntimeError (''YAML config requested but PyYAML is not installed. '' @
                         ''Install pyyaml or use JSON. ('' @ m @ '')'')))"
proof (intro conjI impI)
  assume "\<not> path_exists env p"
  then show "caught_as env p t h (FileNotFoundError (''MCP servers config not found: '' @ p))"
    using caught_asI [OF assms load_absent builtin_is_Exception(1)] by simp
next
  assume a: "path_exists env p \<and> lower (path_suffix env p) \<notin> set [''.yaml'', ''.yml''] \<and>
      read_text env p = Inr body \<and> json_loads env body = Inl e \<and> is_Exception e"
  then have "fst (parse_config env p) = Inl e"
    using parse_json_error [of env p body e] by blast
  with a show "caught_as env p t h e"
    using caught_asI [OF assms load_parse_error] by blast
next
  assume a: "path_exists env p \<and> lower (path_suffix env p) \<in> set [''.yaml'', ''.yml''] \<and>
      import_yaml env = None \<and> read_text env p = Inr body \<and> yaml_safe_load env body = Inl e \<and>
      is_Exception e"
  then have "fst (parse_config env p) = Inl e"
    using parse_yaml_error [of env p body e] by blast
  with a show "caught_as env p t h e"
    using caught_asI [OF assms load_parse_error] by blast
next
  assume a: "path_exists env p \<and> fst (parse_config env p) = Inr data \<and>
      \<not> is_dict data \<and> \<not> is_list data"
  then have "fst (load_servers_from_file env p) =
      Inl (TypeError (''Unsupported config format in '' @ p @ '': expected dict or list''))"
    using load_parsed [of env p data] select_unsupported [of data p] by simp
  then show "caught_as env p t h
      (TypeError (''Unsupported config format in '' @ p @ '': expected dict or list''))"
    using caught_asI [OF assms _ builtin_is_Exception(4)] by blast
next
  assume a: "path_exists env p \<and> fst (parse_config env p) = Inr (PDict d) \<and> chosen d = PNone"
  then have "fst (load_servers_from_file env p) =
      Inl (ValueError (''No '' @ [CHR 0x27] @ ''servers'' @ [CHR 0x27] @ '' key found in '' @ p))"
    using load_parsed [of env p "PDict d"] by (simp add: select_servers_dict)
  then show "caught_as env p t h
      (ValueError (''No '' @ [CHR 0x27] @ ''servers'' @ [CHR 0x27] @ '' key found in '' @ p))"
    using caught_asI [OF assms _ builtin_is_Exception(3)] by blast
next
  assume a: "path_exists env p \<and> fst (parse_config env p) = Inr (PDict d) \<and>
      chosen d \<noteq> PNone \<and> \<not> is_list (chosen d)"
  then have "fst (load_servers_from_file env p) =
      Inl (TypeError ([CHR 0x27] @ ''servers'' @ [CHR 0x27] @ '' must be a list in '' @ p))"
    using load_parsed [of env p "PDict d"] select_not_a_list [of d p] by simp
  then show "caught_as env p t h
      (TypeError ([CHR 0x27] @ ''servers'' @ [CHR 0x27] @ '' must be a list in '' @ p))"
    using caught_asI [OF assms _ builtin_is_Exception(4)] by blast
next
  assume a: "path_exists env p \<and> lower (path_suffix env p) \<in> set [''.yaml'', ''.yml''] \<and>
      import_yaml env = Some x \<and> is_Exception x \<and> str_exn x = Inr m"
  then have "fst (parse_config env p) =
      Inl (RuntimeError (''YAML config requested but PyYAML is not installed. '' @
                         ''Install pyyaml or use JSON. ('' @ m @ '')''))"
    using parse_yaml_unavailable [of env p x m] by blast
  with a have "fst (load_servers_from_file env p) =
      Inl (RuntimeError (''YAML config requested but PyYAML is not installed. '' @
                         ''Install pyyaml or use JSON. ('' @ m @ '')''))"
    using load_parse_error [of env p] by blast
  then show "caught_as env p t h
      (RuntimeError (''YAML config requested but PyYAML is not installed. '' @
                     ''Install pyyaml or use JSON. ('' @ m @ '')''))"
    using caught_asI [OF assms _ builtin_is_Exception(2)] by blast
qed

lemma fs_file_path:
  "fst (default_servers_config_path (fs_file sfx imp parsed)) = Some (''/etc/mcp'' @ sfx)"
  by (simp add: default_servers_config_path_def fs_file_def)

lemma lower_yaml: "lower ''.yaml'' = ''.yaml''"
  by (simp add: lower_def lower_char_def)

theorem config_errors_are_caught_witness:
  "caught_as fs_missing ''/etc/mcp.json'' default_timeout_s heap0
     (FileNotFoundError ''MCP servers config not found: /etc/mcp.json'') \<and>
   fst (init fs_missing None default_timeout_s heap0) =
     Inr \<lparr>timeout_s = default_timeout_s, tools_ref = 0, loaded = False, servers = []\<rparr> \<and>
   caught_as (fs_file ''.json'' None (Inl JSONDecodeError)) ''/etc/mcp.json''
     default_timeout_s heap0 JSONDecodeError \<and>
   caught_as (fs_file ''.yaml'' None (Inl (ValueError ''scanner''))) ''/etc/mcp.yaml''
     default_timeout_s heap0 (ValueError ''scanner'') \<and>
   caught_as (fs_file ''.json'' None (Inr (PStr ''x''))) ''/etc/mcp.json'' default_timeout_s heap0
     (TypeError ''Unsupported config format in /etc/mcp.json: expected dict or list'') \<and>
   caught_as (fs_file ''.json'' None (Inr (PDict [(''other'', PList [])]))) ''/etc/mcp.json''
     default_timeout_s heap0
     (ValueError (''No '' @ [CHR 0x27] @ ''servers'' @ [CHR 0x27] @ '' key found in /etc/mcp.json'')) \<and>
   caught_as (fs_file ''.json'' None (Inr (PDict [(''servers'', PStr ''x'')]))) ''/etc/mcp.json''
     default_timeout_s heap0
     (TypeError ([CHR 0x27] @ ''servers'' @ [CHR 0x27] @ '' must be a list in /etc/mcp.json'')) \<and>
   caught_as (fs_file ''.yaml'' (Some (Exn OtherExc ''ModuleNotFoundError'' (Inr ''yaml''))) (Inr PNone))
     ''/etc/mcp.yaml'' default_timeout_s heap0
     (RuntimeError (''YAML config requested but PyYAML is not installed. '' @
                    ''Install pyyaml or use JSON. (yaml)''))"
proof -
  have pm: "fst (default_servers_config_path fs_missing) = Some ''/etc/mcp.json''"
    by (simp add: default_servers_config_path_def fs_missing_def fs_none_def)
  have c1: "caught_as fs_missing ''/etc/mcp.json'' default_timeout_s heap0
     (FileNotFoundError ''MCP servers config not found: /etc/mcp.json'')"
    using config_errors_are_caught [OF pm, where t = default_timeout_s and h = heap0]
    by (simp add: fs_missing_def fs_none_def)
  then have c1': "fst (init fs_missing None default_timeout_s heap0) =
     Inr \<lparr>timeout_s = default_timeout_s, tools_ref = 0, loaded = False, servers = []\<rparr>"
    by (simp add: caught_as_def empty_connector_def heap0_def)
  have c2: "caught_as (fs_file ''.json'' None (Inl JSONDecodeError)) ''/etc/mcp.json''
     default_timeout_s heap0 JSONDecodeError"
    using config_errors_are_caught
            [OF fs_file_path [of "''.json''" None "Inl JSONDecodeError"],
             where t = default_timeout_s and h = heap0 and body = "''text''"
               and e = JSONDecodeError]
    by (simp add: fs_file_def lower_json is_Exception_def JSONDecodeError_def)
  have c3: "caught_as (fs_file ''.yaml'' None (Inl (ValueError ''scanner''))) ''/etc/mcp.yaml''
     default_timeout_s heap0 (ValueError ''scanner'')"
    using config_errors_are_caught
            [OF fs_file_path [of "''.yaml''" None "Inl (ValueError ''scanner'')"],
             where t = default_timeout_s and h = heap0 and body = "''text''"
               and e = "ValueError ''scanner''"]
    by (simp add: fs_file_def lower_yaml is_Exception_def ValueError_def)
  have c4: "caught_as (fs_file ''.json'' None (Inr (PStr ''x''))) ''/etc/mcp.json''
     default_timeout_s heap0
     (TypeError ''Unsupported config format in /etc/mcp.json: expected dict or list'')"
    using config_errors_are_caught
            [OF fs_file_path [of "''.json''" None "Inr (PStr ''x'')"],
             where t = default_timeout_s and h = heap0 and data = "PStr ''x''"]
    by (simp add: fs_file_def lower_json parse_config_def)
  have c5: "caught_as (fs_file ''.json'' None (Inr (PDict [(''other'', PList [])]))) ''/etc/mcp.json''
     default_timeout_s heap0
     (ValueError (''No '' @ [CHR 0x27] @ ''servers'' @ [CHR 0x27] @ '' key found in /etc/mcp.json''))"
    using config_errors_are_caught
            [OF fs_file_path [of "''.json''" None "Inr (PDict [(''other'', PList [])])"],
             where t = default_timeout_s and h = heap0 and d = "[(''other'', PList [])]"]
    by (simp add: fs_file_def lower_json parse_config_def chosen_def dict_get_def py_or_def)
  have c6: "caught_as (fs_file ''.json'' None (Inr (PDict [(''servers'', PStr ''x'')]))) ''/etc/mcp.json''
     default_timeout_s heap0
     (TypeError ([CHR 0x27] @ ''servers'' @ [CHR 0x27] @ '' must be a list in /etc/mcp.json''))"
    using config_errors_are_caught
            [OF fs_file_path [of "''.json''" None "Inr (PDict [(''servers'', PStr ''x'')])"],
             where t = default_timeout_s and h = heap0 and d = "[(''servers'', PStr ''x'')]"]
    by (simp add: fs_file_def lower_json parse_config_def chosen_def dict_get_def py_or_def)
  have c7: "caught_as (fs_file ''.yaml'' (Some (Exn OtherExc ''ModuleNotFoundError'' (Inr ''yaml''))) (Inr PNone))
     ''/etc/mcp.yaml'' default_timeout_s heap0
     (RuntimeError (''YAML config requested but PyYAML is not installed. '' @
                    ''Install pyyaml or use JSON. (yaml)''))"
    using config_errors_are_caught
            [OF fs_file_path [of "''.yaml''" "Some (Exn OtherExc ''ModuleNotFoundError'' (Inr ''yaml''))"
                                 "Inr PNone"],
             where t = default_timeout_s and h = heap0
               and x = "Exn OtherExc ''ModuleNotFoundError'' (Inr ''yaml'')" and m = "''yaml''"]
    by (simp add: fs_file_def lower_yaml is_Exception_def)
  from c1 c1' c2 c3 c4 c5 c6 c7 show ?thesis by blast
qed

theorem missing_config_counterexample:
  "fst (default_servers_config_path fs_missing) = Some ''/etc/mcp.json'' \<and>
   \<not> path_exists fs_missing ''/etc/mcp.json'' \<and>
   fst (load_servers_from_file fs_missing ''/etc/mcp.json'') =
     Inl (FileNotFoundError ''MCP servers config not found: /etc/mcp.json'') \<and>
   fst (init fs_missing None default_timeout_s heap0) =
     Inr \<lparr>timeout_s = default_timeout_s, tools_ref = 0, loaded = False, servers = []\<rparr>"
  by (simp add: default_servers_config_path_def fs_missing_def fs_none_def
        load_servers_from_file_def init_def alloc_def heap0_def is_Exception_def
        FileNotFoundError_def)

text \<open>
  C5, at \<^verbatim>\<open>{"servers": [], "mcpServers": [{"name": "a"}]}\<close> and at \<^verbatim>\<open>{"mcpServers": []}\<close>: the
  code takes the first key whose value is truthy, not the first key that is present. With
  an empty \<^verbatim>\<open>servers\<close> list the value of \<^verbatim>\<open>mcpServers\<close> is returned, and a file whose only
  key is an empty \<^verbatim>\<open>mcpServers\<close> list is refused as having no key.
\<close>

theorem empty_list_falls_through:
  "fst (load_servers_from_file (fs_file ''.json'' None (Inr both_keys)) ''/etc/mcp.json'') =
     Inr [PDict [(''name'', PStr ''a'')]] \<and>
   fst (load_servers_from_file (fs_file ''.json'' None (Inr only_mcpServers_empty)) ''/etc/mcp.json'') =
     Inl (ValueError (''No '' @ [CHR 0x27] @ ''servers'' @ [CHR 0x27] @ '' key found in /etc/mcp.json''))"
  by (simp add: load_servers_from_file_def parse_config_def fs_file_def lower_json
        select_servers_def both_keys_def only_mcpServers_empty_def dict_get_def py_or_def)

text \<open>What does hold: the first of the three keys whose value is truthy is taken.\<close>

lemma select_servers_first_truthy:
  assumes "truthy (dict_get d ''servers'' PNone)"
  shows "select_servers p (PDict d) =
           (case dict_get d ''servers'' PNone of
              PList xs \<Rightarrow> Inr xs
            | _ \<Rightarrow> Inl (TypeError ([CHR 0x27] @ ''servers'' @ [CHR 0x27] @ '' must be a list in '' @ p)))"
  using assms by (cases "dict_get d ''servers'' PNone") (simp_all add: select_servers_def py_or_def)

lemma select_servers_only_mcpServers:
  assumes "map_of d ''servers'' = None" and "map_of d ''mcpServers'' = Some (PList xs)" and "xs \<noteq> []"
  shows "select_servers p (PDict d) = Inr xs"
  using assms by (simp add: select_servers_def py_or_def dict_get_def)

text \<open>
  C6: when a list is passed, construction returns a connector with that list as its
  descriptors, for every state of the surroundings, and reads nothing of them: no
  environment variable, no path, no file, no parser.
\<close>

theorem explicit_servers_win:
  "init env (Some xs) t h =
     (Inr \<lparr>timeout_s = t, tools_ref = next_free h, loaded = False, servers = xs\<rparr>,
      snd (alloc h []), [])"
  by (simp add: init_def alloc_def)

lemma valid_file_is_loaded:
  "fst (init (fs_file ''.json'' None (Inr (PList [descr ''X'' ''alpha'']))) None default_timeout_s heap0) =
     Inr \<lparr>timeout_s = default_timeout_s, tools_ref = 0, loaded = False,
          servers = [descr ''X'' ''alpha'']\<rparr>"
  by (simp add: init_def alloc_def heap0_def default_servers_config_path_def fs_file_def
        load_servers_from_file_def parse_config_def lower_json select_servers_def)

theorem explicit_servers_win_witness:
  "init (fs_file ''.json'' None (Inr (PList [descr ''X'' ''alpha''])))
        (Some [descr ''A'' ''alpha'']) default_timeout_s heap0 =
     (Inr \<lparr>timeout_s = default_timeout_s, tools_ref = 0, loaded = False,
           servers = [descr ''A'' ''alpha'']\<rparr>,
      snd (alloc heap0 []), [])"
  using explicit_servers_win
          [of "fs_file ''.json'' None (Inr (PList [descr ''X'' ''alpha'']))"
              "[descr ''A'' ''alpha'']" default_timeout_s heap0]
  by (simp add: heap0_def)

text \<open>
  C7: when path resolution finds no file and no list is passed, construction returns a
  connector with an empty descriptor list, and \<open>get_tools\<close> on it returns an empty list
  with no event: no collaborator is called and no skip is recorded.
\<close>

theorem no_config_gives_empty:
  assumes "fst (default_servers_config_path env) = None"
  shows "init env None t h =
           (Inr \<lparr>timeout_s = t, tools_ref = next_free h, loaded = False, servers = []\<rparr>,
            snd (alloc h []), snd (default_servers_config_path env)) \<and>
         returned_list (get_tools k \<lparr>timeout_s = t, tools_ref = next_free h, loaded = False, servers = []\<rparr>
                          (snd (alloc h []))) = Inr [] \<and>
         events_of (get_tools k \<lparr>timeout_s = t, tools_ref = next_free h, loaded = False, servers = []\<rparr>
                      (snd (alloc h []))) = [] \<and>
         skip_records (events_of (get_tools k \<lparr>timeout_s = t, tools_ref = next_free h, loaded = False, servers = []\<rparr>
                      (snd (alloc h [])))) = []"
proof -
  obtain evs where p: "default_servers_config_path env = (None, evs)"
    using assms by (cases "default_servers_config_path env") simp
  have i: "init env None t h =
           (Inr \<lparr>timeout_s = t, tools_ref = next_free h, loaded = False, servers = []\<rparr>,
            snd (alloc h []), snd (default_servers_config_path env))"
    by (simp add: init_def alloc_def p)
  show ?thesis
    by (simp add: i get_tools_def load_all_tools_def alloc_def returned_list_def events_of_def)
qed

theorem no_config_gives_empty_witness:
  "fst (init fs_none None default_timeout_s heap0) =
     Inr \<lparr>timeout_s = default_timeout_s, tools_ref = 0, loaded = False, servers = []\<rparr> \<and>
   returned_list (get_tools demo_toolkit
       \<lparr>timeout_s = default_timeout_s, tools_ref = 0, loaded = False, servers = []\<rparr>
       (snd (alloc heap0 []))) = Inr []"
proof -
  have p: "fst (default_servers_config_path fs_none) = None"
    by (simp add: default_path_None fs_none_def)
  have n: "next_free heap0 = 0" by (simp add: heap0_def)
  show ?thesis
    using no_config_gives_empty [OF p, of default_timeout_s heap0 demo_toolkit] n by simp
qed

end
